theory Spec2Isabelle
  imports Complex_Main
begin

section \<open>The Kubernetes model server runner\<close>

text \<open>
  A shallow embedding of \<^verbatim>\<open>kubernetes_runner.py\<close>: the class \<^verbatim>\<open>KubernetesRunner\<close>
  with its methods \<^verbatim>\<open>GetEndpoint\<close>, \<^verbatim>\<open>Start\<close>, \<^verbatim>\<open>WaitUntilRunning\<close>, \<^verbatim>\<open>Stop\<close> and
  \<^verbatim>\<open>_BuildPodManifest\<close>. A method takes the runner and the world (clock, trace of
  calls made, log) and returns its outcome, the runner and the world afterwards; an
  exception is the \<open>Inl\<close> of the outcome. Names follow the source; a leading underscore
  of a Python name is dropped.
\<close>

subsection \<open>Python values\<close>

text \<open>The truth value of an \<^verbatim>\<open>Optional[str]\<close>: \<^verbatim>\<open>None\<close> and the empty string are false.\<close>

definition truthy :: "string option \<Rightarrow> bool" where
  "truthy s = (case s of None \<Rightarrow> False | Some x \<Rightarrow> x \<noteq> [])"

text \<open>\<^verbatim>\<open>x or y\<close> on optional strings, and on an optional integer with an integer default.\<close>

definition or_str :: "string option \<Rightarrow> string option \<Rightarrow> string option" where
  "or_str x y = (if truthy x then x else y)"

definition or_int :: "int option \<Rightarrow> int \<Rightarrow> int" where
  "or_int x y = (case x of None \<Rightarrow> y | Some n \<Rightarrow> if n = 0 then y else n)"

text \<open>What \<^verbatim>\<open>'{}'.format(x)\<close> prints for an optional string and for an integer.\<close>

definition format_str :: "string option \<Rightarrow> string" where
  "format_str s = (case s of None \<Rightarrow> ''None'' | Some x \<Rightarrow> x)"

definition digit_char :: "nat \<Rightarrow> char" where
  "digit_char d = ''0123456789'' ! (d mod 10)"

function format_nat :: "nat \<Rightarrow> string" where
  "format_nat n = (if n < 10 then [digit_char n] else format_nat (n div 10) @ [digit_char n])"
  by pat_completeness auto
termination
  by (relation "measure (\<lambda>n. n)") auto

declare format_nat.simps [simp del]

definition format_int :: "int \<Rightarrow> string" where
  "format_int i = (if i < 0 then CHR ''-'' # format_nat (nat (- i)) else format_nat (nat i))"

subsection \<open>Module constants\<close>

definition DEFAULT_POLLING_INTERVAL_SEC :: real where
  "DEFAULT_POLLING_INTERVAL_SEC = 5"

text \<open>\<^verbatim>\<open>int(datetime.timedelta(hours=24).total_seconds())\<close>\<close>

definition DEFAULT_ACTIVE_DEADLINE_SEC :: int where
  "DEFAULT_ACTIVE_DEADLINE_SEC = 24 * (60 * 60)"

definition APP_KEY :: string where
  "APP_KEY = ''app''"

definition MODEL_SERVER_POD_NAME_PREFIX :: string where
  "MODEL_SERVER_POD_NAME_PREFIX = ''tfx-infraval-modelserver-''"

definition MODEL_SERVER_APP_LABEL :: string where
  "MODEL_SERVER_APP_LABEL = ''tfx-infraval-modelserver''"

definition MODEL_SERVER_CONTAINER_NAME :: string where
  "MODEL_SERVER_CONTAINER_NAME = ''model-server''"

definition POD_PHASE_RUNNING :: string where
  "POD_PHASE_RUNNING = ''Running''"

definition POD_PHASE_SUCCEEDED :: string where
  "POD_PHASE_SUCCEEDED = ''Succeeded''"

definition POD_PHASE_FAILED :: string where
  "POD_PHASE_FAILED = ''Failed''"

definition POD_CONTAINER_RESTART_POLICY_NEVER :: string where
  "POD_CONTAINER_RESTART_POLICY_NEVER = ''Never''"

subsection \<open>Kubernetes objects\<close>

text \<open>
  The objects of the Kubernetes client, with the fields the runner reads or writes. A
  field the client leaves \<^verbatim>\<open>None\<close> is \<open>None\<close>. The pod the orchestrator returns
  always carries a status (phase and address, each possibly absent); the manifest the
  runner builds has neither.
\<close>

record V1EnvVar =
  name :: string
  "value" :: string

record V1OwnerReference =
  api_version :: "string option"
  kind :: "string option"
  name :: "string option"
  uid :: "string option"

record V1ObjectMeta =
  generate_name :: "string option"
  name :: "string option"
  uid :: "string option"
  labels :: "(string \<times> string) list"
  owner_references :: "V1OwnerReference list"

record V1Container =
  name :: string
  image :: string
  env :: "V1EnvVar list"

record V1PodSpec =
  containers :: "V1Container list"
  service_account_name :: "string option"
  restart_policy :: "string option"
  active_deadline_seconds :: "int option"

record V1PodStatus =
  phase :: "string option"
  pod_ip :: "string option"

record V1Pod =
  api_version :: "string option"
  kind :: "string option"
  metadata :: V1ObjectMeta
  spec :: V1PodSpec
  status :: V1PodStatus

text \<open>\<^verbatim>\<open>rest.ApiException\<close>, with the HTTP status of the response.\<close>

datatype ApiException = ApiException (status: int)

text \<open>
  What a call of the client raises: \<^verbatim>\<open>rest.ApiException\<close>, or any other exception (a
  transport error, say), which no handler of the runner catches; it is named by its
  text.
\<close>

datatype raised = Rest ApiException | Other string

subsection \<open>Configuration\<close>

text \<open>
  \<^verbatim>\<open>ServingSpec.kubernetes\<close>: both fields are optional; an unset field is \<open>None\<close>.
  \<^verbatim>\<open>serving_platform\<close> is what \<^verbatim>\<open>WhichOneof('serving_platform')\<close> returns.
\<close>

record KubernetesConfig =
  service_account_name :: "string option"
  active_deadline_seconds :: "int option"

record ServingSpec =
  serving_platform :: "string option"
  kubernetes :: KubernetesConfig

text \<open>
  \<^verbatim>\<open>serving_bins.ServingBinary\<close>: the one supported family, \<^verbatim>\<open>TensorFlowServing\<close>, with
  its \<^verbatim>\<open>MakeEnvVars\<close> (a dictionary, in insertion order, for a model path), and any
  other class, with its type name.
\<close>

datatype ServingBinary =
  TensorFlowServing (image: string) (container_port: int)
    (MakeEnvVars: "string \<Rightarrow> (string \<times> string) list")
| OtherServingBinary (type_name: string) (image: string) (container_port: int)

text \<open>What \<^verbatim>\<open>kube_utils\<close> reports about the process that constructs the runner.\<close>

record kube_utils =
  is_inside_kfp :: bool
  get_current_kfp_pod :: V1Pod
  get_kfp_namespace :: string

subsection \<open>The world: clock, calls made, log\<close>

datatype event =
  Create_namespaced_pod string V1Pod "raised + V1Pod"
| Read_namespaced_pod "string option" string "raised + V1Pod"
| Delete_namespaced_pod "string option" string "raised + unit"
| Sleep real

datatype log_level = INFO | WARNING | ERROR

text \<open>
  \<open>clock\<close> is what \<^verbatim>\<open>time.time()\<close> returns; \<open>trace\<close> holds the orchestrator calls and
  the sleeps, oldest first; \<open>logs\<close> holds the level and the message template of each
  log record (the rendered arguments are left out).
\<close>

record world =
  clock :: real
  trace :: "event list"
  logs :: "(log_level \<times> string) list"

text \<open>
  The orchestrator, as the runner sees it through \<^verbatim>\<open>CoreV1Api\<close>: each call answers,
  depending on everything that happened so far, with the time the call took and
  either a result or the exception it raises.
\<close>

record CoreV1Api =
  create_namespaced_pod :: "world \<Rightarrow> string \<Rightarrow> V1Pod \<Rightarrow> real \<times> (raised + V1Pod)"
  read_namespaced_pod :: "world \<Rightarrow> string option \<Rightarrow> string \<Rightarrow> real \<times> (raised + V1Pod)"
  delete_namespaced_pod :: "world \<Rightarrow> string option \<Rightarrow> string \<Rightarrow> real \<times> (raised + unit)"

text \<open>A call is recorded with its answer; the clock moves on by the time it took.\<close>

definition called :: "event \<Rightarrow> real \<Rightarrow> world \<Rightarrow> world" where
  "called e t w = w\<lparr>clock := clock w + max 0 t, trace := trace w @ [e]\<rparr>"

text \<open>\<^verbatim>\<open>time.sleep(s)\<close>\<close>

definition sleep :: "real \<Rightarrow> world \<Rightarrow> world" where
  "sleep s w = w\<lparr>clock := clock w + s, trace := trace w @ [Sleep s]\<rparr>"

definition logging :: "log_level \<Rightarrow> string \<Rightarrow> world \<Rightarrow> world" where
  "logging l m w = w\<lparr>logs := logs w @ [(l, m)]\<rparr>"

subsection \<open>Errors\<close>

text \<open>
  What a method of the runner raises: its own exceptions, or \<open>Raised x\<close>, an exception
  \<open>x\<close> of a client call that the method lets through.
\<close>

datatype error =
  AssertionError string
| NotImplementedError string
| ValueError string
| Raised raised
| JobAborted string
| DeadlineExceeded string

subsection \<open>The runner\<close>

record KubernetesRunner =
  config :: KubernetesConfig
  model_path :: string
  serving_binary :: ServingBinary
  serving_spec :: ServingSpec
  executor_pod :: V1Pod
  namespace :: string
  label_dict :: "(string \<times> string) list"
  pod_name :: "string option"
  endpoint :: "string option"

text \<open>\<^verbatim>\<open>__init__\<close>\<close>

definition KubernetesRunner_init ::
  "kube_utils \<Rightarrow> string \<Rightarrow> ServingBinary \<Rightarrow> ServingSpec \<Rightarrow> error + KubernetesRunner" where
  "KubernetesRunner_init ku mp sb ss =
     (if serving_platform ss \<noteq> Some ''kubernetes''
      then Inl (AssertionError ''ServingSpec configuration mismatch.'')
      else if \<not> is_inside_kfp ku
      then Inl (NotImplementedError ''KubernetesRunner should be running inside KFP.'')
      else Inr \<lparr>config = kubernetes ss,
                model_path = mp,
                serving_binary = sb,
                serving_spec = ss,
                executor_pod = get_current_kfp_pod ku,
                namespace = get_kfp_namespace ku,
                label_dict = [(APP_KEY, MODEL_SERVER_APP_LABEL)],
                pod_name = None,
                endpoint = None\<rparr>)"

text \<open>\<^verbatim>\<open>GetEndpoint\<close>\<close>

definition GetEndpoint :: "KubernetesRunner \<Rightarrow> error + string" where
  "GetEndpoint self =
     (case endpoint self of
        None \<Rightarrow> Inl (AssertionError
          ''self._endpoint is not ready. You should call Start() and WaitUntilRunning() first.'')
      | Some e \<Rightarrow> Inr e)"

text \<open>\<^verbatim>\<open>_BuildPodManifest\<close>\<close>

definition BuildPodManifest :: "KubernetesRunner \<Rightarrow> error + V1Pod" where
  "BuildPodManifest self =
     (case serving_binary self of
        OtherServingBinary tn _ _ \<Rightarrow>
          Inl (NotImplementedError (''Unsupported serving binary '' @ tn))
      | TensorFlowServing img _ make_env_vars \<Rightarrow>
          let env_vars = map (\<lambda>(key, val). \<lparr>V1EnvVar.name = key, value = val\<rparr>)
                             (make_env_vars (model_path self));
              service_account_name =
                or_str (KubernetesConfig.service_account_name (config self))
                       (V1PodSpec.service_account_name (spec (executor_pod self)));
              active_deadline_seconds =
                or_int (KubernetesConfig.active_deadline_seconds (config self))
                       DEFAULT_ACTIVE_DEADLINE_SEC
          in if active_deadline_seconds < 0
             then Inl (ValueError (''active_deadline_seconds should be > 0. Got ''
                                   @ format_int active_deadline_seconds))
             else Inr \<lparr>V1Pod.api_version = None,
                       kind = None,
                       metadata = \<lparr>
                         generate_name = Some MODEL_SERVER_POD_NAME_PREFIX,
                         name = None,
                         uid = None,
                         labels = label_dict self,
                         owner_references = [\<lparr>
                           V1OwnerReference.api_version = V1Pod.api_version (executor_pod self),
                           kind = V1Pod.kind (executor_pod self),
                           name = V1ObjectMeta.name (metadata (executor_pod self)),
                           uid = V1ObjectMeta.uid (metadata (executor_pod self))\<rparr>]\<rparr>,
                       spec = \<lparr>
                         containers = [\<lparr>
                           V1Container.name = MODEL_SERVER_CONTAINER_NAME,
                           image = img,
                           env = env_vars\<rparr>],
                         service_account_name = service_account_name,
                         restart_policy = Some POD_CONTAINER_RESTART_POLICY_NEVER,
                         active_deadline_seconds = Some active_deadline_seconds\<rparr>,
                       status = \<lparr>phase = None, pod_ip = None\<rparr>\<rparr>)"

text \<open>
  \<^verbatim>\<open>Start\<close>: the manifest is built first (it is an argument of the call), then the
  creation request is sent; the name the orchestrator assigned is kept. Nothing is
  caught: an exception of the call is raised to the caller.
\<close>

definition Start ::
  "CoreV1Api \<Rightarrow> KubernetesRunner \<Rightarrow> world \<Rightarrow> (error + unit) \<times> KubernetesRunner \<times> world" where
  "Start api self w =
     (if truthy (pod_name self)
      then (Inl (AssertionError ''You cannot start model server multiple times.''), self, w)
      else case BuildPodManifest self of
        Inl e \<Rightarrow> (Inl e, self, w)
      | Inr body \<Rightarrow>
          (case create_namespaced_pod api w (namespace self) body of
             (t, answer) \<Rightarrow>
               let w1 = called (Create_namespaced_pod (namespace self) body answer) t w
               in (case answer of
                     Inl x \<Rightarrow> (Inl (Raised x), self, w1)
                   | Inr pod \<Rightarrow>
                       (Inr (),
                        self\<lparr>pod_name := V1ObjectMeta.name (metadata pod)\<rparr>,
                        logging INFO (''Created Pod:'' @ [CHR 0x0A] @ ''%s'') w1))))"

text \<open>
  The loop of \<^verbatim>\<open>WaitUntilRunning\<close>. Only \<^verbatim>\<open>rest.ApiException\<close> is caught; any
  other exception of the query ends the wait at once. Every round that does not
  return sleeps the polling interval, so the clock reaches the deadline and the loop
  ends.
\<close>

function WaitUntilRunning_loop ::
  "CoreV1Api \<Rightarrow> KubernetesRunner \<Rightarrow> real \<Rightarrow> world \<Rightarrow> (error + unit) \<times> KubernetesRunner \<times> world" where
  "WaitUntilRunning_loop api self deadline w =
     (if clock w < deadline
      then
        (case read_namespaced_pod api w (pod_name self) (namespace self) of
           (t, answer) \<Rightarrow>
             let w1 = called (Read_namespaced_pod (pod_name self) (namespace self) answer) t w
             in (case answer of
                   Inl (Rest e) \<Rightarrow>
                     WaitUntilRunning_loop api self deadline
                       (sleep DEFAULT_POLLING_INTERVAL_SEC
                          (logging INFO ''Continue polling after getting ApiException(%s)'' w1))
                 | Inl (Other x) \<Rightarrow> (Inl (Raised (Other x)), self, w1)
                 | Inr pod \<Rightarrow>
                     let pod_phase = phase (V1Pod.status pod)
                     in if pod_phase = Some POD_PHASE_RUNNING \<and> truthy (pod_ip (V1Pod.status pod))
                        then (Inr (),
                              self\<lparr>endpoint := Some (format_str (pod_ip (V1Pod.status pod)) @ '':'' @
                                  format_int (container_port (serving_binary self)))\<rparr>,
                              w1)
                        else if pod_phase \<in> {Some POD_PHASE_SUCCEEDED, Some POD_PHASE_FAILED}
                        then (Inl (JobAborted (''Job has been aborted. (phase='' @
                                     format_str pod_phase @ '')'')),
                              self, w1)
                        else WaitUntilRunning_loop api self deadline
                               (sleep DEFAULT_POLLING_INTERVAL_SEC
                                  (logging INFO ''Waiting for the pod to be running. (phase=%s)''
                                     w1))))
      else (Inl (DeadlineExceeded ''Deadline exceeded while waiting for pod to be running.''),
            self, w))"
  by pat_completeness auto
termination
proof (relation "measure (\<lambda>(api, self, deadline, w). nat \<lceil>deadline - clock w\<rceil>)")
  have less: "nat \<lceil>deadline - (c + max 0 t + 5)\<rceil> < nat \<lceil>deadline - c\<rceil>"
    if "c < deadline" for deadline c t :: real
    using that by linarith
  fix api :: CoreV1Api and self :: KubernetesRunner and deadline :: real and w w1 :: world
    and t :: real and answer :: "raised + V1Pod" and m :: string
  assume "clock w < deadline"
    and "w1 = called (Read_namespaced_pod (pod_name self) (namespace self) answer) t w"
  then show "((api, self, deadline, sleep DEFAULT_POLLING_INTERVAL_SEC (logging INFO m w1)),
              (api, self, deadline, w))
             \<in> measure (\<lambda>(api, self, deadline, w). nat \<lceil>deadline - clock w\<rceil>)"
    using less [of "clock w" deadline t]
    by (simp add: called_def sleep_def logging_def DEFAULT_POLLING_INTERVAL_SEC_def)
  then show "((api, self, deadline, sleep DEFAULT_POLLING_INTERVAL_SEC (logging INFO m w1)),
              (api, self, deadline, w))
             \<in> measure (\<lambda>(api, self, deadline, w). nat \<lceil>deadline - clock w\<rceil>)" .
qed simp

declare WaitUntilRunning_loop.simps [simp del]

text \<open>\<^verbatim>\<open>WaitUntilRunning\<close>\<close>

definition WaitUntilRunning ::
  "CoreV1Api \<Rightarrow> KubernetesRunner \<Rightarrow> real \<Rightarrow> world \<Rightarrow> (error + unit) \<times> KubernetesRunner \<times> world" where
  "WaitUntilRunning api self deadline w =
     (if \<not> truthy (pod_name self)
      then (Inl (AssertionError ''Pod has not been created yet. You should call Start() first.''),
            self, w)
      else WaitUntilRunning_loop api self deadline w)"

text \<open>
  The loop of \<^verbatim>\<open>Stop\<close> over the items of the backoff generator. The generator
  sleeps before it yields an item; an item is that delay, \<open>None\<close> where it yields
  without sleeping. Only \<^verbatim>\<open>rest.ApiException\<close> is caught; any other exception of the
  deletion is raised to the caller. \<^verbatim>\<open>logging.exception(e)\<close> is an \<open>ERROR\<close> record of
  the exception.
\<close>

fun Stop_loop ::
  "CoreV1Api \<Rightarrow> KubernetesRunner \<Rightarrow> real option list \<Rightarrow> world \<Rightarrow> (error + unit) \<times> world" where
  "Stop_loop api self [] w =
     (Inr (),
      logging WARNING
        (''Unable to delete the model server Pod.'' @ [CHR 0x0A] @
         ''Please run the following command to manually clean up the resource'' @ [CHR 0x0A] @
         [CHR 0x0A] @
         ''kubectl delete pod --namespace %s %s'' @ [CHR 0x0A] @
         [CHR 0x0A]) w)"
| "Stop_loop api self (item # items) w =
     (let w0 = (case item of None \<Rightarrow> w | Some delay \<Rightarrow> sleep delay w);
          w1 = logging INFO ''Deleting Pod (name=%s)'' w0
      in case delete_namespaced_pod api w1 (pod_name self) (namespace self) of
           (t, answer) \<Rightarrow>
             let w2 = called (Delete_namespaced_pod (pod_name self) (namespace self) answer) t w1
             in (case answer of
                   Inr _ \<Rightarrow> (Inr (), w2)
                 | Inl (Rest e) \<Rightarrow>
                     if ApiException.status e = 404
                     then (Inr (), logging INFO ''Pod (name=%s) does not exist.'' w2)
                     else Stop_loop api self items
                            (logging ERROR ''ApiException''
                               (logging WARNING
                                  ''Error occured while deleting the Pod (name=%s).'' w2))
                 | Inl (Other x) \<Rightarrow> (Inl (Raised (Other x)), w2)))"

text \<open>
  \<^verbatim>\<open>Stop\<close>. \<^verbatim>\<open>time_utils.exponential_backoff\<close> is a parameter: \<open>backoff n\<close> is the
  items the generator yields for \<^verbatim>\<open>attempts=n\<close>.
\<close>

definition Stop ::
  "CoreV1Api \<Rightarrow> (nat \<Rightarrow> real option list) \<Rightarrow> KubernetesRunner \<Rightarrow> world
     \<Rightarrow> (error + unit) \<times> KubernetesRunner \<times> world" where
  "Stop api backoff self w =
     (case Stop_loop api self (backoff 5) w of (res, w') \<Rightarrow> (res, self, w'))"

text \<open>
  Modelled from the spec: \<^verbatim>\<open>time_utils.exponential_backoff\<close> is not among the sources.
  The spec calls it a bounded exponential backoff: it yields the given number of
  attempts and sleeps between two attempts a delay that starts at an initial delay
  and is multiplied by a constant factor each time. The initial delay and the factor
  are its defaults, which the spec does not give; they are parameters here.
\<close>

definition exponential_backoff :: "real \<Rightarrow> real \<Rightarrow> nat \<Rightarrow> real option list" where
  "exponential_backoff initial_delay_sec multiplier attempts =
     map (\<lambda>i. if i = 0 then None else Some (initial_delay_sec * multiplier ^ (i - 1)))
         [0..<attempts]"

subsection \<open>Reading a trace\<close>

text \<open>The events a method added to the trace, given the world before and after.\<close>

definition events :: "world \<Rightarrow> world \<Rightarrow> event list" where
  "events w w' = drop (length (trace w)) (trace w')"

text \<open>
  An answer to a status query leaves the wait undecided when it is an
  \<^verbatim>\<open>ApiException\<close>, or a pod that is neither running with an address nor in a terminal
  phase. A round that settles nothing is the query and the sleep after it.
\<close>

definition undecided :: "raised + V1Pod \<Rightarrow> bool" where
  "undecided answer =
     (case answer of
        Inl (Rest e) \<Rightarrow> True
      | Inl (Other x) \<Rightarrow> False
      | Inr pod \<Rightarrow>
          \<not> (phase (V1Pod.status pod) = Some ''Running'' \<and> truthy (pod_ip (V1Pod.status pod))) \<and>
          phase (V1Pod.status pod) \<notin> {Some ''Succeeded'', Some ''Failed''})"

definition round :: "KubernetesRunner \<Rightarrow> raised + V1Pod \<Rightarrow> event list" where
  "round self answer = [Read_namespaced_pod (pod_name self) (namespace self) answer, Sleep 5]"

text \<open>
  The world in which the next query is made, after a query in \<open>w\<close> that settled
  nothing: the query is recorded, the log record written and the polling interval
  slept.
\<close>

definition next_round :: "CoreV1Api \<Rightarrow> KubernetesRunner \<Rightarrow> world \<Rightarrow> world" where
  "next_round api self w =
     (case read_namespaced_pod api w (pod_name self) (namespace self) of
        (t, answer) \<Rightarrow>
          sleep 5
            (logging INFO
               (case answer of
                  Inl _ \<Rightarrow> ''Continue polling after getting ApiException(%s)''
                | Inr _ \<Rightarrow> ''Waiting for the pod to be running. (phase=%s)'')
               (called (Read_namespaced_pod (pod_name self) (namespace self) answer) t w)))"

text \<open>
  \<open>after_rounds api self deadline k w = Some wk\<close>: starting in \<open>w\<close>, the first \<open>k\<close>
  queries were each made before the deadline and left the wait undecided, and \<open>wk\<close> is
  the world after them, in which query \<open>k + 1\<close> is due.
\<close>

fun after_rounds ::
  "CoreV1Api \<Rightarrow> KubernetesRunner \<Rightarrow> real \<Rightarrow> nat \<Rightarrow> world \<Rightarrow> world option" where
  "after_rounds api self deadline 0 w = Some w"
| "after_rounds api self deadline (Suc k) w =
     (if clock w < deadline \<and>
         undecided (snd (read_namespaced_pod api w (pod_name self) (namespace self)))
      then after_rounds api self deadline k (next_round api self w)
      else None)"

text \<open>
  How the wait ended, given the events after its last undecided round: none, when the
  deadline passed, or the one query that settled it.
\<close>

definition settled :: "KubernetesRunner \<Rightarrow> event list \<Rightarrow> (error + unit) \<Rightarrow> KubernetesRunner \<Rightarrow> bool" where
  "settled self fin res self' =
     (fin = [] \<and>
      res = Inl (DeadlineExceeded ''Deadline exceeded while waiting for pod to be running.'') \<and>
      self' = self
      \<or>
      (\<exists>x. fin = [Read_namespaced_pod (pod_name self) (namespace self) (Inl (Other x))] \<and>
         res = Inl (Raised (Other x)) \<and> self' = self)
      \<or>
      (\<exists>pod. fin = [Read_namespaced_pod (pod_name self) (namespace self) (Inr pod)] \<and>
         (if phase (V1Pod.status pod) = Some ''Running'' \<and> truthy (pod_ip (V1Pod.status pod))
          then res = Inr () \<and>
               self' = self\<lparr>endpoint := Some (format_str (pod_ip (V1Pod.status pod)) @ '':'' @
                                  format_int (container_port (serving_binary self)))\<rparr>
          else phase (V1Pod.status pod) \<in> {Some ''Succeeded'', Some ''Failed''} \<and>
               res = Inl (JobAborted (''Job has been aborted. (phase='' @
                                     format_str (phase (V1Pod.status pod)) @ '')'')) \<and>
               self' = self)))"

definition is_deadline_exceeded :: "error + unit \<Rightarrow> bool" where
  "is_deadline_exceeded res = (case res of Inl (DeadlineExceeded _) \<Rightarrow> True | _ \<Rightarrow> False)"

text \<open>
  Every status query that failed with an \<^verbatim>\<open>ApiException\<close> is followed by a sleep of
  the polling interval and then by another query.
\<close>

fun error_repolled :: "event list \<Rightarrow> bool" where
  "error_repolled [] = True"
| "error_repolled (Read_namespaced_pod n ns (Inl (Rest e)) # evs) =
     (case evs of
        Sleep s # Read_namespaced_pod n' ns' a # evs' \<Rightarrow> s = 5 \<and> error_repolled (tl evs)
      | _ \<Rightarrow> False)"
| "error_repolled (ev # evs) = error_repolled evs"

text \<open>
  Every status query that failed with an \<^verbatim>\<open>ApiException\<close> is followed by a sleep of
  the polling interval, and then either by another query or by the end of the wait
  with \<^verbatim>\<open>DeadlineExceeded\<close>.
\<close>

fun error_handled :: "error + unit \<Rightarrow> event list \<Rightarrow> bool" where
  "error_handled res [] = True"
| "error_handled res (Read_namespaced_pod n ns (Inl (Rest e)) # evs) =
     (case evs of
        [Sleep s] \<Rightarrow> s = 5 \<and> is_deadline_exceeded res
      | Sleep s # Read_namespaced_pod n' ns' a # evs' \<Rightarrow> s = 5 \<and> error_handled res (tl evs)
      | _ \<Rightarrow> False)"
| "error_handled res (ev # evs) = error_handled res evs"

text \<open>
  An event after which \<^verbatim>\<open>Stop\<close> goes on: a sleep, or a deletion that failed with an
  \<^verbatim>\<open>ApiException\<close> of a status other than 404. One attempt of \<^verbatim>\<open>Stop\<close>: the
  generator's sleep, if any, and the deletion call; \<open>attempted\<close> is the world after it.
\<close>

definition retried :: "event \<Rightarrow> bool" where
  "retried ev =
     (case ev of
        Sleep _ \<Rightarrow> True
      | Delete_namespaced_pod _ _ (Inl (Rest e)) \<Rightarrow> ApiException.status e \<noteq> 404
      | _ \<Rightarrow> False)"

definition attempt :: "KubernetesRunner \<Rightarrow> real option \<Rightarrow> raised + unit \<Rightarrow> event list" where
  "attempt self item answer =
     (case item of None \<Rightarrow> [] | Some delay \<Rightarrow> [Sleep delay]) @
     [Delete_namespaced_pod (pod_name self) (namespace self) answer]"

definition attempted ::
  "KubernetesRunner \<Rightarrow> real option \<Rightarrow> real \<Rightarrow> raised + unit \<Rightarrow> world \<Rightarrow> world" where
  "attempted self item t answer w =
     called (Delete_namespaced_pod (pod_name self) (namespace self) answer) t
       (logging INFO ''Deleting Pod (name=%s)''
          (case item of None \<Rightarrow> w | Some delay \<Rightarrow> sleep delay w))"

text \<open>The deletion attempts of a trace, and the delays slept, in order.\<close>

definition deletions :: "event list \<Rightarrow> event list" where
  "deletions evs =
     filter (\<lambda>ev. case ev of Delete_namespaced_pod _ _ _ \<Rightarrow> True | _ \<Rightarrow> False) evs"

fun delays :: "event list \<Rightarrow> real list" where
  "delays [] = []"
| "delays (Sleep s # evs) = s # delays evs"
| "delays (ev # evs) = delays evs"

subsection \<open>Example objects\<close>

text \<open>
  A runner inside a pipeline pod, and scripted orchestrators: \<open>example_api\<close> answers
  the status queries from a list, one answer a query, and every call takes a second.
\<close>

definition example_executor_pod :: V1Pod where
  "example_executor_pod =
     \<lparr>V1Pod.api_version = Some ''v1'',
      kind = Some ''Pod'',
      metadata = \<lparr>generate_name = None, name = Some ''executor-1'', uid = Some ''uid-1'',
                  labels = [], owner_references = []\<rparr>,
      spec = \<lparr>containers = [], service_account_name = Some ''pipeline-runner'',
              restart_policy = Some ''Never'', active_deadline_seconds = None\<rparr>,
      status = \<lparr>phase = Some ''Running'', pod_ip = Some ''10.0.0.2''\<rparr>\<rparr>"

definition example_kube_utils :: kube_utils where
  "example_kube_utils =
     \<lparr>is_inside_kfp = True, get_current_kfp_pod = example_executor_pod,
      get_kfp_namespace = ''kubeflow''\<rparr>"

definition example_binary :: ServingBinary where
  "example_binary =
     TensorFlowServing ''tensorflow/serving'' 8500
       (\<lambda>path. [(''MODEL_NAME'', ''model''), (''MODEL_BASE_PATH'', path)])"

definition example_spec :: "int option \<Rightarrow> ServingSpec" where
  "example_spec deadline =
     \<lparr>serving_platform = Some ''kubernetes'',
      kubernetes = \<lparr>KubernetesConfig.service_account_name = None,
                    active_deadline_seconds = deadline\<rparr>\<rparr>"

definition example_runner :: "int option \<Rightarrow> KubernetesRunner" where
  "example_runner deadline =
     \<lparr>config = kubernetes (example_spec deadline),
      model_path = ''/models/model/1'',
      serving_binary = example_binary,
      serving_spec = example_spec deadline,
      executor_pod = example_executor_pod,
      namespace = ''kubeflow'',
      label_dict = [(''app'', ''tfx-infraval-modelserver'')],
      pod_name = None,
      endpoint = None\<rparr>"

definition started_runner :: KubernetesRunner where
  "started_runner = (example_runner None)\<lparr>pod_name := Some ''tfx-infraval-modelserver-x7k2p''\<rparr>"

definition example_status :: "string option \<Rightarrow> string option \<Rightarrow> V1Pod" where
  "example_status ph ip = example_executor_pod\<lparr>status := \<lparr>phase = ph, pod_ip = ip\<rparr>\<rparr>"

definition reads_so_far :: "world \<Rightarrow> nat" where
  "reads_so_far w =
     length (filter (\<lambda>ev. case ev of Read_namespaced_pod _ _ _ \<Rightarrow> True | _ \<Rightarrow> False) (trace w))"

definition example_api :: "(raised + V1Pod) list \<Rightarrow> (raised + unit) \<Rightarrow> CoreV1Api" where
  "example_api reads deleted =
     \<lparr>create_namespaced_pod = (\<lambda>w ns body.
        (1, Inr (body\<lparr>metadata := (metadata body)\<lparr>V1ObjectMeta.name := Some ''tfx-infraval-modelserver-x7k2p''\<rparr>\<rparr>))),
      read_namespaced_pod = (\<lambda>w n ns.
        (1, if reads_so_far w < length reads then reads ! reads_so_far w
            else Inl (Rest (ApiException 503)))),
      delete_namespaced_pod = (\<lambda>w n ns. (1, deleted))\<rparr>"

definition example_world :: world where
  "example_world = \<lparr>clock = 0, trace = [], logs = []\<rparr>"

definition polling_api :: CoreV1Api where
  "polling_api =
     example_api [Inl (Rest (ApiException 503)),
                  Inr (example_status (Some ''Pending'') None),
                  Inr (example_status (Some ''Running'') (Some ''10.0.0.7''))] (Inr ())"

definition aborting_api :: CoreV1Api where
  "aborting_api =
     example_api [Inr (example_status (Some ''Pending'') None),
                  Inr (example_status (Some ''Failed'') None)] (Inr ())"

text \<open>An orchestrator that answers every call with the same exception.\<close>

definition raising_api :: "raised \<Rightarrow> CoreV1Api" where
  "raising_api x =
     \<lparr>create_namespaced_pod = (\<lambda>w ns body. (1, Inl x)),
      read_namespaced_pod = (\<lambda>w n ns. (1, Inl x)),
      delete_namespaced_pod = (\<lambda>w n ns. (1, Inl x))\<rparr>"

definition unavailable_api :: "int \<Rightarrow> CoreV1Api" where
  "unavailable_api code = raising_api (Rest (ApiException code))"

section \<open>Properties\<close>

lemmas constants =
  DEFAULT_POLLING_INTERVAL_SEC_def DEFAULT_ACTIVE_DEADLINE_SEC_def APP_KEY_def
  MODEL_SERVER_POD_NAME_PREFIX_def MODEL_SERVER_APP_LABEL_def
  MODEL_SERVER_CONTAINER_NAME_def POD_PHASE_RUNNING_def POD_PHASE_SUCCEEDED_def
  POD_PHASE_FAILED_def POD_CONTAINER_RESTART_POLICY_NEVER_def

lemmas examples =
  example_executor_pod_def example_kube_utils_def example_binary_def example_spec_def
  example_runner_def started_runner_def example_status_def reads_so_far_def example_api_def
  example_world_def

lemmas run_simps =
  WaitUntilRunning_def WaitUntilRunning_loop.simps Stop_def exponential_backoff_def
  polling_api_def aborting_api_def unavailable_api_def raising_api_def examples
  truthy_def called_def sleep_def logging_def events_def constants Let_def
  format_str_def format_int_def format_nat.simps digit_char_def GetEndpoint_def
  undecided_def next_round_def

subsection \<open>The shape of a wait\<close>

text \<open>A round that settles nothing: the loop goes on in the world after it.\<close>

lemma trace_next_round:
  "trace (next_round api self w) =
     trace w @ round self (snd (read_namespaced_pod api w (pod_name self) (namespace self)))"
  by (simp add: next_round_def round_def sleep_def logging_def called_def split: prod.split)

lemma clock_next_round:
  "clock (next_round api self w) =
     clock w + max 0 (fst (read_namespaced_pod api w (pod_name self) (namespace self))) + 5"
  by (simp add: next_round_def sleep_def logging_def called_def split: prod.split)

lemma WaitUntilRunning_loop_undecided:
  assumes "clock w < deadline"
    and "undecided (snd (read_namespaced_pod api w (pod_name self) (namespace self)))"
  shows "WaitUntilRunning_loop api self deadline w =
           WaitUntilRunning_loop api self deadline (next_round api self w)"
proof -
  obtain t answer where
    rd: "read_namespaced_pod api w (pod_name self) (namespace self) = (t, answer)"
    by (cases "read_namespaced_pod api w (pod_name self) (namespace self)")
  show ?thesis
  proof (cases answer)
    case (Inl x)
    with assms(2) rd obtain e where "x = Rest e"
      by (cases x) (simp_all add: undecided_def)
    with assms(1) rd Inl show ?thesis
      by (subst WaitUntilRunning_loop.simps) (simp add: next_round_def Let_def constants)
  next
    case (Inr pod)
    with assms rd show ?thesis
      by (subst WaitUntilRunning_loop.simps)
         (auto simp: next_round_def Let_def constants undecided_def)
  qed
qed

lemma WaitUntilRunning_loop_decided:
  assumes "clock w < deadline"
    and "read_namespaced_pod api w (pod_name self) (namespace self) = (t, answer)"
    and "\<not> undecided answer"
  shows "WaitUntilRunning_loop api self deadline w =
           (case answer of
              Inl x \<Rightarrow> Inl (Raised x)
            | Inr pod \<Rightarrow>
                if phase (V1Pod.status pod) = Some ''Running''
                then Inr ()
                else Inl (JobAborted (''Job has been aborted. (phase='' @
                            format_str (phase (V1Pod.status pod)) @ '')'')),
            case answer of
              Inl x \<Rightarrow> self
            | Inr pod \<Rightarrow>
                if phase (V1Pod.status pod) = Some ''Running''
                then self\<lparr>endpoint := Some (format_str (pod_ip (V1Pod.status pod)) @ '':'' @
                                  format_int (container_port (serving_binary self)))\<rparr>
                else self,
            called (Read_namespaced_pod (pod_name self) (namespace self) answer) t w)"
proof (cases answer)
  case (Inl x)
  with assms(3) obtain s where "x = Other s"
    by (cases x) (simp_all add: undecided_def)
  with assms(1,2) Inl show ?thesis
    by (subst WaitUntilRunning_loop.simps) (simp add: Let_def)
next
  case (Inr pod)
  with assms show ?thesis
    by (subst WaitUntilRunning_loop.simps) (auto simp: Let_def constants undecided_def)
qed

lemma WaitUntilRunning_loop_after_rounds:
  assumes "after_rounds api self deadline k w = Some wk"
  shows "WaitUntilRunning_loop api self deadline w = WaitUntilRunning_loop api self deadline wk"
  using assms
proof (induction k arbitrary: w)
  case 0
  then show ?case by simp
next
  case (Suc k)
  from Suc.prems have before: "clock w < deadline"
    and und: "undecided (snd (read_namespaced_pod api w (pod_name self) (namespace self)))"
    and rest: "after_rounds api self deadline k (next_round api self w) = Some wk"
    by (simp_all split: if_splits)
  from WaitUntilRunning_loop_undecided [OF before und] Suc.IH [OF rest] show ?case
    by simp
qed

lemma trace_after_rounds:
  assumes "after_rounds api self deadline k w = Some wk"
  shows "\<exists>answers. length answers = k \<and> (\<forall>a \<in> set answers. undecided a) \<and>
           trace wk = trace w @ concat (map (round self) answers)"
  using assms
proof (induction k arbitrary: w)
  case 0
  then show ?case by simp
next
  case (Suc k)
  let ?a = "snd (read_namespaced_pod api w (pod_name self) (namespace self))"
  from Suc.prems have und: "undecided ?a"
    and rest: "after_rounds api self deadline k (next_round api self w) = Some wk"
    by (simp_all split: if_splits)
  from Suc.IH [OF rest] obtain answers where
    "length answers = k" "\<forall>a \<in> set answers. undecided a"
    "trace wk = trace (next_round api self w) @ concat (map (round self) answers)"
    by blast
  with und show ?case
    by (intro exI [of _ "?a # answers"]) (simp add: trace_next_round)
qed

text \<open>
  The events of the loop are undecided rounds followed by how it settled; when
  nothing settled it, the clock has reached the deadline.
\<close>

lemma WaitUntilRunning_loop_shape:
  "\<exists>answers fin.
     trace (snd (snd (WaitUntilRunning_loop api self deadline w))) =
       trace w @ concat (map (round self) answers) @ fin \<and>
     (\<forall>a \<in> set answers. undecided a) \<and>
     settled self fin (fst (WaitUntilRunning_loop api self deadline w))
                      (fst (snd (WaitUntilRunning_loop api self deadline w))) \<and>
     (fin = [] \<longrightarrow> deadline \<le> clock (snd (snd (WaitUntilRunning_loop api self deadline w))))"
proof (induction "nat \<lceil>deadline - clock w\<rceil>" arbitrary: w rule: less_induct)
  case less
  let ?L = "WaitUntilRunning_loop api self deadline w"
  let ?a = "snd (read_namespaced_pod api w (pod_name self) (namespace self))"
  show ?case
  proof (cases "clock w < deadline")
    case False
    then have "?L = (Inl (DeadlineExceeded ''Deadline exceeded while waiting for pod to be running.''), self, w)"
      by (simp add: WaitUntilRunning_loop.simps)
    then show ?thesis
      by (intro exI [of _ "[]"]) (use False in \<open>simp add: settled_def\<close>)
  next
    case True
    show ?thesis
    proof (cases "undecided ?a")
      case und: True
      let ?w2 = "next_round api self w"
      have "nat \<lceil>deadline - clock ?w2\<rceil> < nat \<lceil>deadline - clock w\<rceil>"
        using True unfolding clock_next_round by linarith
      from less [OF this] obtain answers fin where
        *: "trace (snd (snd (WaitUntilRunning_loop api self deadline ?w2))) =
              trace ?w2 @ concat (map (round self) answers) @ fin"
        "\<forall>a \<in> set answers. undecided a"
        "settled self fin (fst (WaitUntilRunning_loop api self deadline ?w2))
                          (fst (snd (WaitUntilRunning_loop api self deadline ?w2)))"
        "fin = [] \<longrightarrow> deadline \<le> clock (snd (snd (WaitUntilRunning_loop api self deadline ?w2)))"
        by blast
      with und show ?thesis
        unfolding WaitUntilRunning_loop_undecided [OF True und]
        by (intro exI [of _ "?a # answers"] exI [of _ fin]) (simp add: trace_next_round)
    next
      case False
      obtain t where rd: "read_namespaced_pod api w (pod_name self) (namespace self) = (t, ?a)"
        by (cases "read_namespaced_pod api w (pod_name self) (namespace self)") simp
      let ?fin = "[Read_namespaced_pod (pod_name self) (namespace self) ?a]"
      from False have "settled self ?fin (fst ?L) (fst (snd ?L))"
        unfolding WaitUntilRunning_loop_decided [OF True rd False]
        by (cases ?a rule: sum.exhaust)
           (auto simp: settled_def undecided_def split: raised.splits)
      moreover have "trace (snd (snd ?L)) = trace w @ ?fin"
        unfolding WaitUntilRunning_loop_decided [OF True rd False]
        by (simp add: called_def)
      ultimately show ?thesis
        by (intro exI [of _ "[]"] exI [of _ ?fin]) simp
    qed
  qed
qed

lemma settled_cases:
  assumes "settled self fin res self'"
  shows "fin = [] \<or>
         (\<exists>a. fin = [Read_namespaced_pod (pod_name self) (namespace self) a] \<and> \<not> undecided a)"
  using assms by (auto simp: settled_def undecided_def split: if_splits)

lemma WaitUntilRunning_loop_events:
  assumes "WaitUntilRunning_loop api self deadline w = (res, self', w')"
  obtains answers fin where
    "events w w' = concat (map (round self) answers) @ fin"
    and "\<forall>a \<in> set answers. undecided a"
    and "settled self fin res self'"
    and "fin = [] \<longrightarrow> deadline \<le> clock w'"
  using WaitUntilRunning_loop_shape [of api self deadline w] assms
  by (auto simp: events_def)

lemma in_rounds:
  assumes "ev \<in> set (concat (map (round self) answers))" and "\<forall>a \<in> set answers. undecided a"
  shows "(\<exists>s. ev = Sleep s) \<or> (\<exists>n ns a. ev = Read_namespaced_pod n ns a \<and> undecided a)"
  using assms by (auto simp: round_def)

lemma WaitUntilRunning_loop_first_event:
  assumes "clock w < deadline"
  shows "\<exists>evs. trace (snd (snd (WaitUntilRunning_loop api self deadline w))) =
           trace w @
           Read_namespaced_pod (pod_name self) (namespace self)
             (snd (read_namespaced_pod api w (pod_name self) (namespace self))) # evs"
proof -
  let ?a = "snd (read_namespaced_pod api w (pod_name self) (namespace self))"
  show ?thesis
  proof (cases "undecided ?a")
    case True
    from WaitUntilRunning_loop_shape [of api self deadline "next_round api self w"]
    obtain evs where
      "trace (snd (snd (WaitUntilRunning_loop api self deadline (next_round api self w)))) =
         trace (next_round api self w) @ evs"
      by blast
    then show ?thesis
      unfolding WaitUntilRunning_loop_undecided [OF assms True]
      by (simp add: trace_next_round round_def)
  next
    case False
    obtain t where rd: "read_namespaced_pod api w (pod_name self) (namespace self) = (t, ?a)"
      by (cases "read_namespaced_pod api w (pod_name self) (namespace self)") simp
    show ?thesis
      unfolding WaitUntilRunning_loop_decided [OF assms rd False]
      by (simp add: called_def)
  qed
qed

lemma error_handled_skip:
  assumes "\<forall>e. a \<noteq> Inl (Rest e)"
  shows "error_handled res (Read_namespaced_pod n ns a # evs) = error_handled res evs"
proof (cases a)
  case (Inl x)
  with assms show ?thesis by (cases x) simp_all
next
  case (Inr pod)
  then show ?thesis by simp
qed

lemma error_handled_rounds:
  assumes "settled self fin res self'"
  shows "error_handled res (concat (map (round self) answers) @ fin)"
proof (induction answers)
  case Nil
  from settled_cases [OF assms] show ?case
  proof
    assume "fin = []"
    then show ?thesis by simp
  next
    assume "\<exists>a. fin = [Read_namespaced_pod (pod_name self) (namespace self) a] \<and> \<not> undecided a"
    then obtain a where fin: "fin = [Read_namespaced_pod (pod_name self) (namespace self) a]"
      and "\<not> undecided a"
      by blast
    then have "\<forall>e. a \<noteq> Inl (Rest e)" by (auto simp: undecided_def)
    with fin show ?thesis by (simp add: error_handled_skip)
  qed
next
  case (Cons a answers)
  let ?rest = "concat (map (round self) answers) @ fin"
  note other = error_handled_skip
  show ?case
  proof (cases "\<exists>e. a = Inl (Rest e)")
    case False
    with Cons other show ?thesis by (simp add: round_def)
  next
    case True
    then obtain e where Inl: "a = Inl (Rest e)" by blast
    show ?thesis
    proof (cases answers)
      case (Cons b bs)
      with Inl Cons.IH show ?thesis by (simp add: round_def)
    next
      case Nil
      show ?thesis
      proof (cases fin)
        case Nil
        with assms have "is_deadline_exceeded res"
          by (simp add: settled_def is_deadline_exceeded_def)
        with Inl Nil \<open>answers = []\<close> show ?thesis by (simp add: round_def)
      next
        case (Cons f fs)
        with settled_cases [OF assms] obtain b where fin: "fin = [Read_namespaced_pod (pod_name self) (namespace self) b]"
          and "\<not> undecided b"
          by auto
        then have "\<forall>e. b \<noteq> Inl (Rest e)" by (auto simp: undecided_def)
        with Inl \<open>answers = []\<close> fin other show ?thesis
          by (simp add: round_def)
      qed
    qed
  qed
qed

subsection \<open>Waiting\<close>

text \<open>
  Claim C1. When a status query of \<^verbatim>\<open>WaitUntilRunning\<close> returns phase "Running"
  together with a non-empty address, the call returns normally and the endpoint of the
  runner, which \<^verbatim>\<open>GetEndpoint\<close> then returns, is that address, a colon and the
  container port of the serving binary. First from the answers of the orchestrator:
  on a started runner, when the first \<open>k\<close> queries were made before the deadline and
  settled nothing, and query \<open>k + 1\<close>, made before the deadline, returns such a pod,
  the wait returns normally with that endpoint, and its events are the \<open>k\<close> rounds and
  this query. Then for every run: a query among its events that returned such a pod
  means the run ended so.
\<close>

theorem WaitUntilRunning_running:
  assumes ph: "phase (V1Pod.status pod) = Some ''Running''"
    and ip: "pod_ip (V1Pod.status pod) = Some address" "address \<noteq> []"
  shows "(truthy (pod_name self) \<and>
          after_rounds api self deadline k w = Some wk \<and> clock wk < deadline \<and>
          read_namespaced_pod api wk (pod_name self) (namespace self) = (t, Inr pod) \<longrightarrow>
            WaitUntilRunning api self deadline w =
              (Inr (),
               self\<lparr>endpoint := Some (address @ '':'' @
                                      format_int (container_port (serving_binary self)))\<rparr>,
               called (Read_namespaced_pod (pod_name self) (namespace self) (Inr pod)) t wk) \<and>
            (\<exists>answers. length answers = k \<and>
               events w (called (Read_namespaced_pod (pod_name self) (namespace self) (Inr pod)) t wk) =
                 concat (map (round self) answers) @
                 [Read_namespaced_pod (pod_name self) (namespace self) (Inr pod)]))
         \<and>
         (WaitUntilRunning api self deadline w = (res, self', w') \<and>
          Read_namespaced_pod n ns (Inr pod) \<in> set (events w w') \<longrightarrow>
            res = Inr () \<and>
            endpoint self' =
              Some (address @ '':'' @ format_int (container_port (serving_binary self))) \<and>
            GetEndpoint self' =
              Inr (address @ '':'' @ format_int (container_port (serving_binary self))))"
proof (intro conjI impI; (elim conjE)?)
  assume started: "truthy (pod_name self)"
    and rounds: "after_rounds api self deadline k w = Some wk"
    and before: "clock wk < deadline"
    and rd: "read_namespaced_pod api wk (pod_name self) (namespace self) = (t, Inr pod)"
  have decided: "\<not> undecided (Inr pod)"
    using ph ip by (simp add: undecided_def truthy_def)
  from started have "WaitUntilRunning api self deadline w = WaitUntilRunning_loop api self deadline wk"
    by (simp add: WaitUntilRunning_def WaitUntilRunning_loop_after_rounds [OF rounds])
  also note WaitUntilRunning_loop_decided [OF before rd decided]
  finally show "WaitUntilRunning api self deadline w =
              (Inr (),
               self\<lparr>endpoint := Some (address @ '':'' @
                                      format_int (container_port (serving_binary self)))\<rparr>,
               called (Read_namespaced_pod (pod_name self) (namespace self) (Inr pod)) t wk)"
    using ph ip by (simp add: format_str_def)
  from trace_after_rounds [OF rounds] obtain answers where
    "length answers = k" "trace wk = trace w @ concat (map (round self) answers)"
    by blast
  then show "\<exists>answers. length answers = k \<and>
               events w (called (Read_namespaced_pod (pod_name self) (namespace self) (Inr pod)) t wk) =
                 concat (map (round self) answers) @
                 [Read_namespaced_pod (pod_name self) (namespace self) (Inr pod)]"
    by (intro exI [of _ answers]) (simp add: events_def called_def)
next
  assume run: "WaitUntilRunning api self deadline w = (res, self', w')"
    and ev: "Read_namespaced_pod n ns (Inr pod) \<in> set (events w w')"
  have started: "truthy (pod_name self)"
  proof (rule ccontr)
    assume "\<not> truthy (pod_name self)"
    with run have "w' = w" by (simp add: WaitUntilRunning_def)
    with ev show False by (simp add: events_def)
  qed
  with run have "WaitUntilRunning_loop api self deadline w = (res, self', w')"
    by (simp add: WaitUntilRunning_def)
  then obtain answers fin where
    evs: "events w w' = concat (map (round self) answers) @ fin"
    and und: "\<forall>a \<in> set answers. undecided a"
    and fin: "settled self fin res self'"
    by (rule WaitUntilRunning_loop_events)
  have ready: "\<not> undecided (Inr pod)"
    using ph ip by (simp add: undecided_def truthy_def)
  from ev evs have "Read_namespaced_pod n ns (Inr pod) \<in> set (concat (map (round self) answers))
      \<or> Read_namespaced_pod n ns (Inr pod) \<in> set fin"
    by auto
  then have "Read_namespaced_pod n ns (Inr pod) \<in> set fin"
    using in_rounds [OF _ und] ready by blast
  with settled_cases [OF fin] have "fin = [Read_namespaced_pod (pod_name self) (namespace self) (Inr pod)]"
    by auto
  with fin ph ip have "res = Inr ()"
    and "self' = self\<lparr>endpoint := Some (address @ '':'' @
                         format_int (container_port (serving_binary self)))\<rparr>"
    by (simp_all add: settled_def truthy_def format_str_def)
  then show "res = Inr ()"
    and "endpoint self' = Some (address @ '':'' @ format_int (container_port (serving_binary self)))"
    and "GetEndpoint self' = Inr (address @ '':'' @ format_int (container_port (serving_binary self)))"
    by (simp_all add: GetEndpoint_def)
qed

theorem WaitUntilRunning_running_witness:
  "truthy (pod_name started_runner) \<and>
   after_rounds polling_api started_runner 60 (Suc (Suc 0)) example_world =
     Some (next_round polling_api started_runner
            (next_round polling_api started_runner example_world)) \<and>
   clock (next_round polling_api started_runner
            (next_round polling_api started_runner example_world)) < 60 \<and>
   read_namespaced_pod polling_api
     (next_round polling_api started_runner (next_round polling_api started_runner example_world))
     (pod_name started_runner) (namespace started_runner) =
     (1, Inr (example_status (Some ''Running'') (Some ''10.0.0.7''))) \<and>
   fst (WaitUntilRunning polling_api started_runner 60 example_world) = Inr () \<and>
   GetEndpoint (fst (snd (WaitUntilRunning polling_api started_runner 60 example_world))) =
     Inr ''10.0.0.7:8500'' \<and>
   events example_world (snd (snd (WaitUntilRunning polling_api started_runner 60 example_world))) =
     [Read_namespaced_pod (Some ''tfx-infraval-modelserver-x7k2p'') ''kubeflow''
        (Inl (Rest (ApiException 503))),
      Sleep 5,
      Read_namespaced_pod (Some ''tfx-infraval-modelserver-x7k2p'') ''kubeflow''
        (Inr (example_status (Some ''Pending'') None)),
      Sleep 5,
      Read_namespaced_pod (Some ''tfx-infraval-modelserver-x7k2p'') ''kubeflow''
        (Inr (example_status (Some ''Running'') (Some ''10.0.0.7'')))]"
proof -
  let ?pod = "example_status (Some ''Running'') (Some ''10.0.0.7'')"
  let ?wk = "next_round polling_api started_runner
               (next_round polling_api started_runner example_world)"
  have ph: "phase (V1Pod.status ?pod) = Some ''Running''"
    and ip: "pod_ip (V1Pod.status ?pod) = Some ''10.0.0.7''" "''10.0.0.7'' \<noteq> []"
    by (simp_all add: examples)
  have started: "truthy (pod_name started_runner)"
    by (simp add: run_simps)
  have rounds: "after_rounds polling_api started_runner 60 (Suc (Suc 0)) example_world = Some ?wk"
    by (simp add: run_simps)
  have before: "clock ?wk < 60"
    by (simp add: run_simps)
  have rd: "read_namespaced_pod polling_api ?wk (pod_name started_runner) (namespace started_runner) =
              (1, Inr ?pod)"
    by (simp add: run_simps)
  have port: "format_int (container_port (serving_binary started_runner)) = ''8500''"
    by (simp add: run_simps)
  have evs: "events example_world
      (called (Read_namespaced_pod (pod_name started_runner) (namespace started_runner) (Inr ?pod)) 1 ?wk) =
     [Read_namespaced_pod (Some ''tfx-infraval-modelserver-x7k2p'') ''kubeflow''
        (Inl (Rest (ApiException 503))),
      Sleep 5,
      Read_namespaced_pod (Some ''tfx-infraval-modelserver-x7k2p'') ''kubeflow''
        (Inr (example_status (Some ''Pending'') None)),
      Sleep 5,
      Read_namespaced_pod (Some ''tfx-infraval-modelserver-x7k2p'') ''kubeflow'' (Inr ?pod)]"
    by (simp add: run_simps)
  from WaitUntilRunning_running [OF ph ip, of started_runner polling_api 60 "Suc (Suc 0)"
      example_world ?wk 1]
    started rounds before rd
  have "WaitUntilRunning polling_api started_runner 60 example_world =
          (Inr (), started_runner\<lparr>endpoint := Some (''10.0.0.7'' @ '':'' @
               format_int (container_port (serving_binary started_runner)))\<rparr>,
           called (Read_namespaced_pod (pod_name started_runner) (namespace started_runner) (Inr ?pod)) 1 ?wk)"
    by blast
  with started rounds before rd port evs show ?thesis
    by (simp add: GetEndpoint_def)
qed

text \<open>
  Claim C3. When a status query of \<^verbatim>\<open>WaitUntilRunning\<close> returns the phase
  "Succeeded" or "Failed", the call raises \<^verbatim>\<open>JobAborted\<close> with that phase in its
  message, the runner is unchanged, and no query follows. First from the answers of
  the orchestrator: on a started runner, when the first \<open>k\<close> queries were made before
  the deadline and settled nothing, and query \<open>k + 1\<close>, made before the deadline,
  returns such a pod, the wait ends so in the world right after that query, and its
  events are the \<open>k\<close> rounds and this query. Then for every run: a query among its
  events that returned such a pod is the last event, and the run ended so.
\<close>

theorem WaitUntilRunning_terminal_phase:
  assumes ph: "phase (V1Pod.status pod) = Some ph" "ph = ''Succeeded'' \<or> ph = ''Failed''"
  shows "(truthy (pod_name self) \<and>
          after_rounds api self deadline k w = Some wk \<and> clock wk < deadline \<and>
          read_namespaced_pod api wk (pod_name self) (namespace self) = (t, Inr pod) \<longrightarrow>
            WaitUntilRunning api self deadline w =
              (Inl (JobAborted (''Job has been aborted. (phase='' @ ph @ '')'')),
               self,
               called (Read_namespaced_pod (pod_name self) (namespace self) (Inr pod)) t wk) \<and>
            (\<exists>answers. length answers = k \<and>
               events w (called (Read_namespaced_pod (pod_name self) (namespace self) (Inr pod)) t wk) =
                 concat (map (round self) answers) @
                 [Read_namespaced_pod (pod_name self) (namespace self) (Inr pod)]))
         \<and>
         (WaitUntilRunning api self deadline w = (res, self', w') \<and>
          i < length (events w w') \<and>
          events w w' ! i = Read_namespaced_pod n ns (Inr pod) \<longrightarrow>
            res = Inl (JobAborted (''Job has been aborted. (phase='' @ ph @ '')'')) \<and>
            Suc i = length (events w w') \<and>
            self' = self)"
proof (intro conjI impI; (elim conjE)?)
  assume started: "truthy (pod_name self)"
    and rounds: "after_rounds api self deadline k w = Some wk"
    and before: "clock wk < deadline"
    and rd: "read_namespaced_pod api wk (pod_name self) (namespace self) = (t, Inr pod)"
  have decided: "\<not> undecided (Inr pod)"
    using ph by (auto simp: undecided_def)
  from started have "WaitUntilRunning api self deadline w = WaitUntilRunning_loop api self deadline wk"
    by (simp add: WaitUntilRunning_def WaitUntilRunning_loop_after_rounds [OF rounds])
  also note WaitUntilRunning_loop_decided [OF before rd decided]
  finally show "WaitUntilRunning api self deadline w =
              (Inl (JobAborted (''Job has been aborted. (phase='' @ ph @ '')'')),
               self,
               called (Read_namespaced_pod (pod_name self) (namespace self) (Inr pod)) t wk)"
    using ph by (auto simp: format_str_def)
  from trace_after_rounds [OF rounds] obtain answers where
    "length answers = k" "trace wk = trace w @ concat (map (round self) answers)"
    by blast
  then show "\<exists>answers. length answers = k \<and>
               events w (called (Read_namespaced_pod (pod_name self) (namespace self) (Inr pod)) t wk) =
                 concat (map (round self) answers) @
                 [Read_namespaced_pod (pod_name self) (namespace self) (Inr pod)]"
    by (intro exI [of _ answers]) (simp add: events_def called_def)
next
  assume run: "WaitUntilRunning api self deadline w = (res, self', w')"
    and i: "i < length (events w w')"
    and ev: "events w w' ! i = Read_namespaced_pod n ns (Inr pod)"
  have started: "truthy (pod_name self)"
  proof (rule ccontr)
    assume "\<not> truthy (pod_name self)"
    with run have "w' = w" by (simp add: WaitUntilRunning_def)
    with i show False by (simp add: events_def)
  qed
  with run have "WaitUntilRunning_loop api self deadline w = (res, self', w')"
    by (simp add: WaitUntilRunning_def)
  then obtain answers fin where
    evs: "events w w' = concat (map (round self) answers) @ fin"
    and und: "\<forall>a \<in> set answers. undecided a"
    and fin: "settled self fin res self'"
    by (rule WaitUntilRunning_loop_events)
  let ?rounds = "concat (map (round self) answers)"
  have terminal: "\<not> undecided (Inr pod)"
    using ph by (auto simp: undecided_def)
  have "\<not> i < length ?rounds"
  proof
    assume "i < length ?rounds"
    with ev evs have "Read_namespaced_pod n ns (Inr pod) \<in> set ?rounds"
      by (metis nth_append nth_mem)
    from in_rounds [OF this und] terminal show False by auto
  qed
  moreover from i evs have "i < length ?rounds + length fin" by simp
  moreover from settled_cases [OF fin] have "length fin \<le> 1" by auto
  ultimately have at: "i = length ?rounds" and len: "length fin = 1" by linarith+
  with ev evs settled_cases [OF fin]
  have "fin = [Read_namespaced_pod (pod_name self) (namespace self) (Inr pod)]"
    by (auto simp: nth_append)
  with fin ph have "res = Inl (JobAborted (''Job has been aborted. (phase='' @ ph @ '')''))"
    and "self' = self"
    by (auto simp: settled_def format_str_def)
  with at len evs
  show "res = Inl (JobAborted (''Job has been aborted. (phase='' @ ph @ '')''))"
    and "Suc i = length (events w w')" and "self' = self"
    by simp_all
qed

theorem WaitUntilRunning_terminal_phase_witness:
  "truthy (pod_name started_runner) \<and>
   after_rounds aborting_api started_runner 60 (Suc 0) example_world =
     Some (next_round aborting_api started_runner example_world) \<and>
   clock (next_round aborting_api started_runner example_world) < 60 \<and>
   read_namespaced_pod aborting_api (next_round aborting_api started_runner example_world)
     (pod_name started_runner) (namespace started_runner) =
     (1, Inr (example_status (Some ''Failed'') None)) \<and>
   fst (WaitUntilRunning aborting_api started_runner 60 example_world) =
     Inl (JobAborted ''Job has been aborted. (phase=Failed)'') \<and>
   events example_world (snd (snd (WaitUntilRunning aborting_api started_runner 60 example_world))) =
     [Read_namespaced_pod (Some ''tfx-infraval-modelserver-x7k2p'') ''kubeflow''
        (Inr (example_status (Some ''Pending'') None)),
      Sleep 5,
      Read_namespaced_pod (Some ''tfx-infraval-modelserver-x7k2p'') ''kubeflow''
        (Inr (example_status (Some ''Failed'') None))]"
proof -
  let ?pod = "example_status (Some ''Failed'') None"
  let ?wk = "next_round aborting_api started_runner example_world"
  have ph: "phase (V1Pod.status ?pod) = Some ''Failed''"
      "''Failed'' = ''Succeeded'' \<or> ''Failed'' = ''Failed''"
    by (simp_all add: examples)
  have started: "truthy (pod_name started_runner)"
    by (simp add: run_simps)
  have rounds: "after_rounds aborting_api started_runner 60 (Suc 0) example_world = Some ?wk"
    by (simp add: run_simps)
  have before: "clock ?wk < 60"
    by (simp add: run_simps)
  have rd: "read_namespaced_pod aborting_api ?wk (pod_name started_runner) (namespace started_runner) =
              (1, Inr ?pod)"
    by (simp add: run_simps)
  have evs: "events example_world
      (called (Read_namespaced_pod (pod_name started_runner) (namespace started_runner) (Inr ?pod)) 1 ?wk) =
     [Read_namespaced_pod (Some ''tfx-infraval-modelserver-x7k2p'') ''kubeflow''
        (Inr (example_status (Some ''Pending'') None)),
      Sleep 5,
      Read_namespaced_pod (Some ''tfx-infraval-modelserver-x7k2p'') ''kubeflow'' (Inr ?pod)]"
    by (simp add: run_simps)
  from WaitUntilRunning_terminal_phase [OF ph, of started_runner aborting_api 60 "Suc 0"
      example_world ?wk 1]
    started rounds before rd
  have "WaitUntilRunning aborting_api started_runner 60 example_world =
          (Inl (JobAborted (''Job has been aborted. (phase='' @ ''Failed'' @ '')'')),
           started_runner,
           called (Read_namespaced_pod (pod_name started_runner) (namespace started_runner) (Inr ?pod)) 1 ?wk)"
    by blast
  with started rounds before rd evs show ?thesis
    by simp
qed

text \<open>
  Claim C4. On a started runner, \<^verbatim>\<open>WaitUntilRunning\<close> with a deadline that the clock
  has reached raises \<^verbatim>\<open>DeadlineExceeded\<close>; the runner and the world are unchanged, so
  no query was made.
\<close>

theorem WaitUntilRunning_past_deadline:
  assumes "truthy (pod_name self)" and "deadline \<le> clock w"
  shows "WaitUntilRunning api self deadline w =
           (Inl (DeadlineExceeded ''Deadline exceeded while waiting for pod to be running.''),
            self, w)"
  using assms by (simp add: WaitUntilRunning_def WaitUntilRunning_loop.simps)

theorem WaitUntilRunning_past_deadline_witness:
  "truthy (pod_name started_runner) \<and> (0::real) \<le> clock example_world \<and>
   WaitUntilRunning (example_api [] (Inr ())) started_runner 0 example_world =
     (Inl (DeadlineExceeded ''Deadline exceeded while waiting for pod to be running.''),
      started_runner, example_world)"
  using WaitUntilRunning_past_deadline [of started_runner 0 example_world "example_api [] (Inr ())"]
  by (simp add: examples truthy_def)

text \<open>
  Claim C7 says that every failed status query is followed by another query after the
  polling interval, and that the wait ends in one of three ways only. With a deadline
  of 3 seconds and an orchestrator that answers every query with an \<^verbatim>\<open>ApiException\<close>
  of status 403, the one query made fails and is followed by the sleep only: after it
  the clock is past the deadline. And when the query raises something that is not an
  \<^verbatim>\<open>ApiException\<close>, here the transport error of a refused connection, the wait ends
  with that error.
\<close>

theorem WaitUntilRunning_api_error_repolled_counterexample:
  "\<not> error_repolled
       (events example_world
          (snd (snd (WaitUntilRunning (unavailable_api 403) started_runner 3 example_world)))) \<and>
   events example_world
     (snd (snd (WaitUntilRunning (unavailable_api 403) started_runner 3 example_world))) =
     [Read_namespaced_pod (Some ''tfx-infraval-modelserver-x7k2p'') ''kubeflow''
        (Inl (Rest (ApiException 403))),
      Sleep 5] \<and>
   fst (WaitUntilRunning (raising_api (Other ''MaxRetryError'')) started_runner 3 example_world) =
     Inl (Raised (Other ''MaxRetryError''))"
  by (simp add: run_simps)

text \<open>
  Claim C7, amended. On a started runner, a status query that fails with an
  \<^verbatim>\<open>ApiException\<close> never ends the wait: it is followed by a sleep of the polling
  interval, and then by another query when the clock is still before the deadline,
  and by the end of the wait with \<^verbatim>\<open>DeadlineExceeded\<close> otherwise.
  \<^verbatim>\<open>WaitUntilRunning\<close> ends by returning normally, with \<^verbatim>\<open>JobAborted\<close>, with
  \<^verbatim>\<open>DeadlineExceeded\<close> when the clock has reached the deadline, or with an exception
  of a query that is not an \<^verbatim>\<open>ApiException\<close>: never with the \<^verbatim>\<open>ApiException\<close> itself.
  The failed query is query \<open>k + 1\<close>, made in the world \<open>wk\<close> after \<open>k\<close> rounds that
  settled nothing.
\<close>

theorem WaitUntilRunning_api_error_continues:
  assumes started: "truthy (pod_name self)"
    and run: "WaitUntilRunning api self deadline w = (res, self', w')"
  shows "(res = Inr () \<or>
          (\<exists>m. res = Inl (JobAborted m)) \<or>
          (res = Inl (DeadlineExceeded ''Deadline exceeded while waiting for pod to be running.'')
           \<and> deadline \<le> clock w') \<or>
          (\<exists>x. res = Inl (Raised (Other x))))
         \<and> error_handled res (events w w')
         \<and> (after_rounds api self deadline k w = Some wk \<and> clock wk < deadline \<and>
            read_namespaced_pod api wk (pod_name self) (namespace self) = (t, Inl (Rest e)) \<longrightarrow>
              clock (next_round api self wk) = clock wk + max 0 t + 5 \<and>
              (\<exists>answers rest.
                 length answers = k \<and>
                 events w w' =
                   concat (map (round self) answers) @
                   [Read_namespaced_pod (pod_name self) (namespace self) (Inl (Rest e)), Sleep 5] @
                   rest \<and>
                 (if clock (next_round api self wk) < deadline
                  then \<exists>evs. rest =
                         Read_namespaced_pod (pod_name self) (namespace self)
                           (snd (read_namespaced_pod api (next_round api self wk)
                                   (pod_name self) (namespace self))) # evs
                  else rest = [] \<and>
                       res = Inl (DeadlineExceeded
                                    ''Deadline exceeded while waiting for pod to be running.'') \<and>
                       self' = self \<and> w' = next_round api self wk)))"
proof (intro conjI impI; (elim conjE)?)
  from started run have loop: "WaitUntilRunning_loop api self deadline w = (res, self', w')"
    by (simp add: WaitUntilRunning_def)
  then obtain answers fin where
    evs: "events w w' = concat (map (round self) answers) @ fin"
    and fin: "settled self fin res self'"
    and late: "fin = [] \<longrightarrow> deadline \<le> clock w'"
    by (rule WaitUntilRunning_loop_events)
  from error_handled_rounds [OF fin] evs show "error_handled res (events w w')"
    by simp
  from fin late
  show "res = Inr () \<or> (\<exists>m. res = Inl (JobAborted m)) \<or>
        (res = Inl (DeadlineExceeded ''Deadline exceeded while waiting for pod to be running.'')
         \<and> deadline \<le> clock w') \<or>
        (\<exists>x. res = Inl (Raised (Other x)))"
    by (auto simp: settled_def split: if_splits)
  assume rounds: "after_rounds api self deadline k w = Some wk"
    and before: "clock wk < deadline"
    and rd: "read_namespaced_pod api wk (pod_name self) (namespace self) = (t, Inl (Rest e))"
  let ?w2 = "next_round api self wk"
  let ?failed = "[Read_namespaced_pod (pod_name self) (namespace self) (Inl (Rest e)), Sleep 5]"
  from rd show "clock ?w2 = clock wk + max 0 t + 5"
    by (simp add: clock_next_round)
  from rd have und: "undecided (snd (read_namespaced_pod api wk (pod_name self) (namespace self)))"
    by (simp add: undecided_def)
  from loop have loop2: "WaitUntilRunning_loop api self deadline ?w2 = (res, self', w')"
    by (simp add: WaitUntilRunning_loop_after_rounds [OF rounds]
        WaitUntilRunning_loop_undecided [OF before und])
  from trace_after_rounds [OF rounds] obtain answers where
    len: "length answers = k" and trk: "trace wk = trace w @ concat (map (round self) answers)"
    by blast
  from rd have tr2: "trace ?w2 = trace wk @ ?failed"
    by (simp add: trace_next_round round_def)
  show "\<exists>answers rest.
          length answers = k \<and>
          events w w' = concat (map (round self) answers) @ ?failed @ rest \<and>
          (if clock ?w2 < deadline
           then \<exists>evs. rest =
                  Read_namespaced_pod (pod_name self) (namespace self)
                    (snd (read_namespaced_pod api ?w2 (pod_name self) (namespace self))) # evs
           else rest = [] \<and>
                res = Inl (DeadlineExceeded
                             ''Deadline exceeded while waiting for pod to be running.'') \<and>
                self' = self \<and> w' = ?w2)"
  proof (cases "clock ?w2 < deadline")
    case True
    from WaitUntilRunning_loop_first_event [OF True, of api self] loop2 obtain evs where
      "trace w' = trace ?w2 @
         Read_namespaced_pod (pod_name self) (namespace self)
           (snd (read_namespaced_pod api ?w2 (pod_name self) (namespace self))) # evs"
      by auto
    with True len trk tr2 show ?thesis
      by (intro exI [of _ answers]
          exI [of _ "Read_namespaced_pod (pod_name self) (namespace self)
           (snd (read_namespaced_pod api ?w2 (pod_name self) (namespace self))) # evs"])
         (simp add: events_def)
  next
    case False
    then have "WaitUntilRunning_loop api self deadline ?w2 =
        (Inl (DeadlineExceeded ''Deadline exceeded while waiting for pod to be running.''),
         self, ?w2)"
      by (simp add: WaitUntilRunning_loop.simps)
    with loop2 have "res = Inl (DeadlineExceeded
                             ''Deadline exceeded while waiting for pod to be running.'')"
      and "self' = self" and "w' = ?w2"
      by auto
    with False len trk tr2 show ?thesis
      by (intro exI [of _ answers] exI [of _ "[]"]) (simp add: events_def)
  qed
qed

theorem WaitUntilRunning_api_error_continues_witness:
  "truthy (pod_name started_runner) \<and>
   after_rounds (unavailable_api 403) started_runner 12 (Suc 0) example_world =
     Some (next_round (unavailable_api 403) started_runner example_world) \<and>
   clock (next_round (unavailable_api 403) started_runner example_world) < 12 \<and>
   read_namespaced_pod (unavailable_api 403)
     (next_round (unavailable_api 403) started_runner example_world)
     (pod_name started_runner) (namespace started_runner) = (1, Inl (Rest (ApiException 403))) \<and>
   \<not> clock (next_round (unavailable_api 403) started_runner
              (next_round (unavailable_api 403) started_runner example_world)) < 12 \<and>
   events example_world
     (snd (snd (WaitUntilRunning (unavailable_api 403) started_runner 12 example_world))) =
     [Read_namespaced_pod (Some ''tfx-infraval-modelserver-x7k2p'') ''kubeflow''
        (Inl (Rest (ApiException 403))),
      Sleep 5,
      Read_namespaced_pod (Some ''tfx-infraval-modelserver-x7k2p'') ''kubeflow''
        (Inl (Rest (ApiException 403))),
      Sleep 5] \<and>
   error_handled (fst (WaitUntilRunning (unavailable_api 403) started_runner 12 example_world))
     (events example_world
        (snd (snd (WaitUntilRunning (unavailable_api 403) started_runner 12 example_world)))) \<and>
   fst (WaitUntilRunning (unavailable_api 403) started_runner 12 example_world) =
     Inl (DeadlineExceeded ''Deadline exceeded while waiting for pod to be running.'')"
proof -
  let ?run = "WaitUntilRunning (unavailable_api 403) started_runner 12 example_world"
  let ?wk = "next_round (unavailable_api 403) started_runner example_world"
  have run: "?run = (fst ?run, fst (snd ?run), snd (snd ?run))"
    by simp
  have started: "truthy (pod_name started_runner)"
    by (simp add: run_simps)
  have rounds: "after_rounds (unavailable_api 403) started_runner 12 (Suc 0) example_world = Some ?wk"
    by (simp add: run_simps)
  have before: "clock ?wk < 12"
    by (simp add: run_simps)
  have rd: "read_namespaced_pod (unavailable_api 403) ?wk (pod_name started_runner)
              (namespace started_runner) = (1, Inl (Rest (ApiException 403)))"
    by (simp add: run_simps)
  have late: "\<not> clock (next_round (unavailable_api 403) started_runner ?wk) < 12"
    by (simp add: run_simps)
  have evs: "events example_world (snd (snd ?run)) =
     [Read_namespaced_pod (Some ''tfx-infraval-modelserver-x7k2p'') ''kubeflow''
        (Inl (Rest (ApiException 403))),
      Sleep 5,
      Read_namespaced_pod (Some ''tfx-infraval-modelserver-x7k2p'') ''kubeflow''
        (Inl (Rest (ApiException 403))),
      Sleep 5]"
    by (simp add: run_simps)
  from WaitUntilRunning_api_error_continues [OF started run, of "Suc 0" ?wk 1 "ApiException 403"]
    rounds before rd late
  have "error_handled (fst ?run) (events example_world (snd (snd ?run)))"
    and "fst ?run = Inl (DeadlineExceeded ''Deadline exceeded while waiting for pod to be running.'')"
    by auto
  with started rounds before rd late evs show ?thesis
    by simp
qed

subsection \<open>The shape of a teardown\<close>

lemma trace_attempted: "trace (attempted self item t answer w) = trace w @ attempt self item answer"
  by (cases item) (simp_all add: attempted_def attempt_def called_def sleep_def logging_def)

lemma Stop_loop_step:
  assumes "delete_namespaced_pod api
             (logging INFO ''Deleting Pod (name=%s)''
                (case item of None \<Rightarrow> w | Some delay \<Rightarrow> sleep delay w))
             (pod_name self) (namespace self) = (t, answer)"
  shows "Stop_loop api self (item # items) w =
           (case answer of
              Inr _ \<Rightarrow> (Inr (), attempted self item t answer w)
            | Inl (Rest e) \<Rightarrow>
                if ApiException.status e = 404
                then (Inr (),
                      logging INFO ''Pod (name=%s) does not exist.''
                        (attempted self item t answer w))
                else Stop_loop api self items
                       (logging ERROR ''ApiException''
                          (logging WARNING ''Error occured while deleting the Pod (name=%s).''
                             (attempted self item t answer w)))
            | Inl (Other x) \<Rightarrow> (Inl (Raised (Other x)), attempted self item t answer w))"
proof (cases answer)
  case (Inl x)
  with assms show ?thesis
    by (cases x) (simp_all add: Let_def attempted_def)
next
  case (Inr u)
  with assms show ?thesis
    by (simp add: Let_def attempted_def)
qed

text \<open>
  Every event of \<^verbatim>\<open>Stop\<close> but the last is a sleep or a deletion that failed with an
  \<^verbatim>\<open>ApiException\<close> other than 404, and \<^verbatim>\<open>Stop\<close> raises only when the last event is a
  deletion that raised something else.
\<close>

lemma Stop_loop_retried:
  "\<exists>evs. trace (snd (Stop_loop api self items w)) = trace w @ evs \<and>
         (\<forall>ev \<in> set (butlast evs). retried ev) \<and>
         (fst (Stop_loop api self items w) \<noteq> Inr () \<longrightarrow>
            evs \<noteq> [] \<and> (\<exists>n ns x. last evs = Delete_namespaced_pod n ns (Inl (Other x))))"
proof (induction items arbitrary: w)
  case Nil
  show ?case by (simp add: logging_def)
next
  case (Cons item items)
  obtain t answer where
    "delete_namespaced_pod api
       (logging INFO ''Deleting Pod (name=%s)''
          (case item of None \<Rightarrow> w | Some delay \<Rightarrow> sleep delay w))
       (pod_name self) (namespace self) = (t, answer)"
    by (meson surj_pair)
  note step = Stop_loop_step [OF this, of items]
  define w2 where "w2 = attempted self item t answer w"
  have tr: "trace w2 = trace w @ attempt self item answer"
    by (simp add: w2_def trace_attempted)
  have sleeps: "\<forall>ev \<in> set (butlast (attempt self item answer)). retried ev"
    by (cases item) (simp_all add: attempt_def retried_def)
  have last: "attempt self item answer \<noteq> []"
    "last (attempt self item answer) =
       Delete_namespaced_pod (pod_name self) (namespace self) answer"
    by (simp_all add: attempt_def)
  show ?case
  proof (cases "\<exists>e. answer = Inl (Rest e) \<and> ApiException.status e \<noteq> 404")
    case False
    then have "trace (snd (Stop_loop api self (item # items) w)) = trace w2"
      and "fst (Stop_loop api self (item # items) w) \<noteq> Inr () \<longrightarrow> (\<exists>x. answer = Inl (Other x))"
      using step
      by (cases answer rule: sum.exhaust; auto simp: logging_def w2_def split: raised.splits)+
    with tr sleeps last show ?thesis
      by (intro exI [of _ "attempt self item answer"]) auto
  next
    case True
    then obtain e where e: "answer = Inl (Rest e)" "ApiException.status e \<noteq> 404" by blast
    let ?w3 = "logging ERROR ''ApiException''
                 (logging WARNING ''Error occured while deleting the Pod (name=%s).'' w2)"
    from e step have next_item:
      "Stop_loop api self (item # items) w = Stop_loop api self items ?w3"
      by (simp add: w2_def)
    from Cons.IH [of ?w3] obtain evs where
      evs: "trace (snd (Stop_loop api self items ?w3)) = trace ?w3 @ evs"
        "\<forall>ev \<in> set (butlast evs). retried ev"
        "fst (Stop_loop api self items ?w3) \<noteq> Inr () \<longrightarrow>
            evs \<noteq> [] \<and> (\<exists>n ns x. last evs = Delete_namespaced_pod n ns (Inl (Other x)))"
      by blast
    have all: "\<forall>ev \<in> set (attempt self item answer). retried ev"
      using e by (cases item) (simp_all add: attempt_def retried_def)
    have "trace (snd (Stop_loop api self (item # items) w)) =
            trace w @ attempt self item answer @ evs"
      using next_item evs(1) tr by (simp add: logging_def)
    moreover have "\<forall>ev \<in> set (butlast (attempt self item answer @ evs)). retried ev"
      using all sleeps evs(2) by (auto simp: butlast_append)
    moreover have "fst (Stop_loop api self (item # items) w) \<noteq> Inr () \<longrightarrow>
        attempt self item answer @ evs \<noteq> [] \<and>
        (\<exists>n ns x. last (attempt self item answer @ evs) =
                    Delete_namespaced_pod n ns (Inl (Other x)))"
      using next_item evs(3) by auto
    ultimately show ?thesis by blast
  qed
qed

lemma Stop_loop_failing:
  assumes "\<forall>w n ns. \<exists>t e. delete_namespaced_pod api w n ns = (t, Inl (Rest e)) \<and>
                          ApiException.status e \<noteq> 404"
  shows "\<exists>errors. length errors = length items \<and>
           (\<forall>e \<in> set errors. ApiException.status e \<noteq> 404) \<and>
           trace (snd (Stop_loop api self items w)) =
             trace w @ concat (map2 (\<lambda>item e. attempt self item (Inl (Rest e))) items errors) \<and>
           fst (Stop_loop api self items w) = Inr () \<and>
           logs (snd (Stop_loop api self items w)) \<noteq> [] \<and>
           fst (last (logs (snd (Stop_loop api self items w)))) = WARNING"
proof (induction items arbitrary: w)
  case Nil
  show ?case by (simp add: logging_def)
next
  case (Cons item items)
  let ?w1 = "logging INFO ''Deleting Pod (name=%s)''
          (case item of None \<Rightarrow> w | Some delay \<Rightarrow> sleep delay w)"
  from assms obtain t e where
    del: "delete_namespaced_pod api ?w1 (pod_name self) (namespace self) = (t, Inl (Rest e))"
    and e: "ApiException.status e \<noteq> 404"
    by blast
  define w2 where "w2 = attempted self item t (Inl (Rest e)) w"
  have tr: "trace w2 = trace w @ attempt self item (Inl (Rest e))"
    by (simp add: w2_def trace_attempted)
  let ?w3 = "logging ERROR ''ApiException''
                 (logging WARNING ''Error occured while deleting the Pod (name=%s).'' w2)"
  have step: "Stop_loop api self (item # items) w = Stop_loop api self items ?w3"
    using Stop_loop_step [OF del, of items] e by (simp add: w2_def)
  from Cons.IH [of ?w3] obtain errors where
    "length errors = length items"
    "\<forall>e \<in> set errors. ApiException.status e \<noteq> 404"
    "trace (snd (Stop_loop api self items ?w3)) =
       trace ?w3 @ concat (map2 (\<lambda>item e. attempt self item (Inl (Rest e))) items errors)"
    "fst (Stop_loop api self items ?w3) = Inr ()"
    "logs (snd (Stop_loop api self items ?w3)) \<noteq> []"
    "fst (last (logs (snd (Stop_loop api self items ?w3)))) = WARNING"
    by blast
  with tr step e show ?case
    by (intro exI [of _ "e # errors"]) (simp add: logging_def)
qed

lemma exponential_backoff_5:
  "exponential_backoff d m 5 = [None, Some d, Some (d * m), Some (d * m ^ 2), Some (d * m ^ 3)]"
proof -
  have "[0..<5] = [0, 1, 2, 3, 4::nat]" by code_simp
  then show ?thesis by (simp add: exponential_backoff_def)
qed

subsection \<open>Teardown\<close>

text \<open>
  Claim C8. When a deletion attempt of \<^verbatim>\<open>Stop\<close> fails with an \<^verbatim>\<open>ApiException\<close> of
  status 404, \<^verbatim>\<open>Stop\<close> returns normally and that attempt is the last event: no further
  attempt and no sleep follows. This holds whatever the backoff generator yields.
\<close>

theorem Stop_not_found:
  assumes run: "Stop api backoff self w = (res, self', w')"
    and i: "i < length (events w w')"
    and ev: "events w w' ! i = Delete_namespaced_pod n ns (Inl (Rest e))"
    and nf: "ApiException.status e = 404"
  shows "res = Inr () \<and> Suc i = length (events w w') \<and> self' = self"
proof -
  from run have res: "res = fst (Stop_loop api self (backoff 5) w)"
    and w': "w' = snd (Stop_loop api self (backoff 5) w)" and "self' = self"
    by (auto simp: Stop_def split: prod.splits)
  from Stop_loop_retried [of api self "backoff 5" w] res w' obtain evs where
    evs: "events w w' = evs" "\<forall>ev \<in> set (butlast evs). retried ev"
      "res \<noteq> Inr () \<longrightarrow> evs \<noteq> [] \<and> (\<exists>n ns x. last evs = Delete_namespaced_pod n ns (Inl (Other x)))"
    by (auto simp: events_def)
  have "\<not> Suc i < length evs"
  proof
    assume "Suc i < length evs"
    then have "i < length (butlast evs)" by simp
    then have "butlast evs ! i \<in> set (butlast evs)" and "butlast evs ! i = evs ! i"
      by (rule nth_mem, rule nth_butlast)
    with evs ev have "retried (Delete_namespaced_pod n ns (Inl (Rest e)))" by auto
    with nf show False by (simp add: retried_def)
  qed
  with i evs(1) have at: "Suc i = length evs" by simp
  then have "last evs = evs ! i"
    by (metis diff_Suc_1 last_conv_nth length_0_conv nat.distinct(1))
  with ev evs(1,3) have "res = Inr ()" by auto
  with at evs(1) \<open>self' = self\<close> show ?thesis by simp
qed

theorem Stop_not_found_witness:
  "0 < length (events example_world
          (snd (snd (Stop (unavailable_api 404) (exponential_backoff 1 2) started_runner
             example_world)))) \<and>
   events example_world
     (snd (snd (Stop (unavailable_api 404) (exponential_backoff 1 2) started_runner
        example_world))) ! 0 =
     Delete_namespaced_pod (Some ''tfx-infraval-modelserver-x7k2p'') ''kubeflow''
       (Inl (Rest (ApiException 404))) \<and>
   fst (Stop (unavailable_api 404) (exponential_backoff 1 2) started_runner example_world) = Inr () \<and>
   length (events example_world
     (snd (snd (Stop (unavailable_api 404) (exponential_backoff 1 2) started_runner
        example_world)))) = 1"
proof -
  let ?run = "Stop (unavailable_api 404) (exponential_backoff 1 2) started_runner example_world"
  have five: "[0..<5] = [0, 1, 2, 3, 4::nat]" by code_simp
  have run: "?run = (fst ?run, fst (snd ?run), snd (snd ?run))"
    by simp
  have i: "0 < length (events example_world (snd (snd ?run)))"
    by (simp add: run_simps five)
  have ev: "events example_world (snd (snd ?run)) ! 0 =
     Delete_namespaced_pod (Some ''tfx-infraval-modelserver-x7k2p'') ''kubeflow''
       (Inl (Rest (ApiException 404)))"
    by (simp add: run_simps five)
  from Stop_not_found [OF run i ev] i ev show ?thesis
    by simp
qed

text \<open>
  Claim C2 says that \<^verbatim>\<open>Stop\<close> makes five attempts and returns normally whenever each
  deletion fails with an error other than "not found". \<^verbatim>\<open>Stop\<close> catches
  \<^verbatim>\<open>ApiException\<close> only: when the deletion raises anything else, here the transport
  error of a refused connection, \<^verbatim>\<open>Stop\<close> makes one attempt and raises that error.
\<close>

theorem Stop_other_exception_counterexample:
  "Stop (raising_api (Other ''MaxRetryError'')) (exponential_backoff 1 2) started_runner
     example_world =
     (Inl (Raised (Other ''MaxRetryError'')),
      started_runner,
      \<lparr>clock = 1,
       trace = [Delete_namespaced_pod (Some ''tfx-infraval-modelserver-x7k2p'') ''kubeflow''
                  (Inl (Other ''MaxRetryError''))],
       logs = [(INFO, ''Deleting Pod (name=%s)'')]\<rparr>)"
proof -
  have five: "[0..<5] = [0, 1, 2, 3, 4::nat]" by code_simp
  show ?thesis by (simp add: run_simps five)
qed

text \<open>
  Claim C2, amended. With an exponential backoff of a positive initial delay \<open>d\<close> and
  a factor \<open>m\<close> above one, and an orchestrator whose every deletion fails with an
  \<^verbatim>\<open>ApiException\<close> of a status other than 404, \<^verbatim>\<open>Stop\<close> makes exactly five deletion
  attempts, sleeps between two attempts the delays \<open>d\<close>, \<open>d * m\<close>, \<open>d * m\<^sup>2\<close>,
  \<open>d * m\<^sup>3\<close>, each longer than the one before, and returns normally; its last log
  record is a warning.
\<close>

theorem Stop_exhausts_five_attempts:
  assumes pos: "0 < initial_delay_sec" and grow: "1 < multiplier"
    and failing: "\<forall>w n ns. \<exists>t e. delete_namespaced_pod api w n ns = (t, Inl (Rest e)) \<and>
                                 ApiException.status e \<noteq> 404"
    and run: "Stop api (exponential_backoff initial_delay_sec multiplier) self w = (res, self', w')"
  shows "res = Inr () \<and> self' = self \<and>
         (\<exists>e1 e2 e3 e4 e5.
            events w w' =
              [Delete_namespaced_pod (pod_name self) (namespace self) (Inl (Rest e1)),
               Sleep initial_delay_sec,
               Delete_namespaced_pod (pod_name self) (namespace self) (Inl (Rest e2)),
               Sleep (initial_delay_sec * multiplier),
               Delete_namespaced_pod (pod_name self) (namespace self) (Inl (Rest e3)),
               Sleep (initial_delay_sec * multiplier ^ 2),
               Delete_namespaced_pod (pod_name self) (namespace self) (Inl (Rest e4)),
               Sleep (initial_delay_sec * multiplier ^ 3),
               Delete_namespaced_pod (pod_name self) (namespace self) (Inl (Rest e5))]) \<and>
         length (deletions (events w w')) = 5 \<and>
         length (delays (events w w')) = 4 \<and>
         sorted_wrt (<) (delays (events w w')) \<and>
         fst (last (logs w')) = WARNING"
proof -
  let ?items = "exponential_backoff initial_delay_sec multiplier 5"
  from run have w': "w' = snd (Stop_loop api self ?items w)"
    and res: "res = fst (Stop_loop api self ?items w)" and self': "self' = self"
    by (auto simp: Stop_def split: prod.splits)
  from Stop_loop_failing [OF failing, of ?items self w] obtain errors where
    len: "length errors = length ?items"
    and tr: "trace w' = trace w @ concat (map2 (\<lambda>item e. attempt self item (Inl (Rest e))) ?items errors)"
    and ok: "res = Inr ()"
    and warn: "fst (last (logs w')) = WARNING"
    unfolding w' res by blast
  from len obtain e1 e2 e3 e4 e5 where "errors = [e1, e2, e3, e4, e5]"
    by (auto simp: exponential_backoff_5 length_Suc_conv)
  with tr have evs: "events w w' =
              [Delete_namespaced_pod (pod_name self) (namespace self) (Inl (Rest e1)),
               Sleep initial_delay_sec,
               Delete_namespaced_pod (pod_name self) (namespace self) (Inl (Rest e2)),
               Sleep (initial_delay_sec * multiplier),
               Delete_namespaced_pod (pod_name self) (namespace self) (Inl (Rest e3)),
               Sleep (initial_delay_sec * multiplier ^ 2),
               Delete_namespaced_pod (pod_name self) (namespace self) (Inl (Rest e4)),
               Sleep (initial_delay_sec * multiplier ^ 3),
               Delete_namespaced_pod (pod_name self) (namespace self) (Inl (Rest e5))]"
    by (simp add: events_def exponential_backoff_5 attempt_def)
  have "initial_delay_sec < initial_delay_sec * multiplier"
    using pos grow by simp
  moreover have "initial_delay_sec * multiplier < initial_delay_sec * multiplier ^ 2"
    using pos grow by (simp add: power2_eq_square)
  moreover have "initial_delay_sec * multiplier ^ 2 < initial_delay_sec * multiplier ^ 3"
    using pos grow by (simp add: power_strict_increasing)
  ultimately have "sorted_wrt (<) (delays (events w w'))"
    unfolding evs by auto
  moreover have "length (deletions (events w w')) = 5" and "length (delays (events w w')) = 4"
    unfolding evs by (simp_all add: deletions_def)
  ultimately show ?thesis using ok self' warn evs by blast
qed

theorem Stop_exhausts_five_attempts_witness:
  "(0::real) < 1 \<and> (1::real) < 2 \<and>
   (\<forall>w n ns. \<exists>t e. delete_namespaced_pod (unavailable_api 500) w n ns = (t, Inl (Rest e)) \<and>
      ApiException.status e \<noteq> 404) \<and>
   fst (Stop (unavailable_api 500) (exponential_backoff 1 2) started_runner example_world) = Inr () \<and>
   events example_world
     (snd (snd (Stop (unavailable_api 500) (exponential_backoff 1 2) started_runner
        example_world))) =
     [Delete_namespaced_pod (Some ''tfx-infraval-modelserver-x7k2p'') ''kubeflow''
        (Inl (Rest (ApiException 500))),
      Sleep 1,
      Delete_namespaced_pod (Some ''tfx-infraval-modelserver-x7k2p'') ''kubeflow''
        (Inl (Rest (ApiException 500))),
      Sleep 2,
      Delete_namespaced_pod (Some ''tfx-infraval-modelserver-x7k2p'') ''kubeflow''
        (Inl (Rest (ApiException 500))),
      Sleep 4,
      Delete_namespaced_pod (Some ''tfx-infraval-modelserver-x7k2p'') ''kubeflow''
        (Inl (Rest (ApiException 500))),
      Sleep 8,
      Delete_namespaced_pod (Some ''tfx-infraval-modelserver-x7k2p'') ''kubeflow''
        (Inl (Rest (ApiException 500)))] \<and>
   sorted_wrt (<) (delays (events example_world
     (snd (snd (Stop (unavailable_api 500) (exponential_backoff 1 2) started_runner
        example_world)))))"
proof -
  let ?run = "Stop (unavailable_api 500) (exponential_backoff 1 2) started_runner example_world"
  have run: "?run = (fst ?run, fst (snd ?run), snd (snd ?run))"
    by simp
  have failing: "\<forall>w n ns. \<exists>t e.
      delete_namespaced_pod (unavailable_api 500) w n ns = (t, Inl (Rest e)) \<and>
      ApiException.status e \<noteq> 404"
    by (simp add: unavailable_api_def raising_api_def)
  have five: "[0..<5] = [0, 1, 2, 3, 4::nat]" by code_simp
  have evs: "events example_world (snd (snd ?run)) =
     [Delete_namespaced_pod (Some ''tfx-infraval-modelserver-x7k2p'') ''kubeflow''
        (Inl (Rest (ApiException 500))),
      Sleep 1,
      Delete_namespaced_pod (Some ''tfx-infraval-modelserver-x7k2p'') ''kubeflow''
        (Inl (Rest (ApiException 500))),
      Sleep 2,
      Delete_namespaced_pod (Some ''tfx-infraval-modelserver-x7k2p'') ''kubeflow''
        (Inl (Rest (ApiException 500))),
      Sleep 4,
      Delete_namespaced_pod (Some ''tfx-infraval-modelserver-x7k2p'') ''kubeflow''
        (Inl (Rest (ApiException 500))),
      Sleep 8,
      Delete_namespaced_pod (Some ''tfx-infraval-modelserver-x7k2p'') ''kubeflow''
        (Inl (Rest (ApiException 500)))]"
    by (simp add: run_simps five)
  have pos: "(0::real) < 1" and grow: "(1::real) < 2"
    by simp_all
  from Stop_exhausts_five_attempts [OF pos grow failing run]
  have "fst ?run = Inr ()"
    and "sorted_wrt (<) (delays (events example_world (snd (snd ?run))))"
    by blast+
  with failing evs show ?thesis
    by simp
qed

subsection \<open>Starting\<close>

text \<open>
  Claim C5. On a runner that has not been started, with a negative
  \<^verbatim>\<open>active_deadline_seconds\<close>, \<^verbatim>\<open>Start\<close> raises the error of \<^verbatim>\<open>_BuildPodManifest\<close>,
  which is the \<^verbatim>\<open>ValueError\<close> for the deadline (or, for an unsupported serving
  binary, the \<^verbatim>\<open>NotImplementedError\<close> raised before the deadline is read); the runner
  and the world are unchanged, so no creation call was made.
\<close>

theorem Start_negative_deadline:
  assumes "\<not> truthy (pod_name self)"
    and "KubernetesConfig.active_deadline_seconds (config self) = Some n" and "n < 0"
  shows "\<exists>e. Start api self w = (Inl e, self, w) \<and> BuildPodManifest self = Inl e \<and>
             e = (case serving_binary self of
                    TensorFlowServing _ _ _ \<Rightarrow>
                      ValueError (''active_deadline_seconds should be > 0. Got '' @ format_int n)
                  | OtherServingBinary tn _ _ \<Rightarrow>
                      NotImplementedError (''Unsupported serving binary '' @ tn))"
  using assms
  by (simp add: Start_def BuildPodManifest_def or_int_def split: ServingBinary.split)

theorem Start_negative_deadline_witness:
  "\<not> truthy (pod_name (example_runner (Some (- 1)))) \<and>
   KubernetesConfig.active_deadline_seconds (config (example_runner (Some (- 1)))) = Some (- 1) \<and>
   (- 1 :: int) < 0 \<and>
   Start (example_api [] (Inr ())) (example_runner (Some (- 1))) example_world =
     (Inl (ValueError ''active_deadline_seconds should be > 0. Got -1''),
      example_runner (Some (- 1)), example_world)"
  using Start_negative_deadline [of "example_runner (Some (- 1))" "- 1" "example_api [] (Inr ())"
      example_world]
  by (simp add: examples truthy_def format_int_def format_nat.simps digit_char_def)

text \<open>
  Claim C6. On a runner that has not been started, with \<^verbatim>\<open>active_deadline_seconds\<close>
  unset and a supported serving binary, \<^verbatim>\<open>Start\<close> makes one creation call, and the
  manifest it submits has an active deadline of 86400 seconds.
\<close>

theorem Start_default_deadline:
  assumes "\<not> truthy (pod_name self)"
    and "KubernetesConfig.active_deadline_seconds (config self) = None"
    and "serving_binary self = TensorFlowServing img port make_env_vars"
    and "Start api self w = (res, self', w')"
  shows "\<exists>body answer.
           BuildPodManifest self = Inr body \<and>
           V1PodSpec.active_deadline_seconds (spec body) = Some 86400 \<and>
           events w w' = [Create_namespaced_pod (namespace self) body answer]"
  using assms
  by (auto simp: Start_def BuildPodManifest_def or_int_def events_def called_def logging_def
      constants Let_def split: prod.splits sum.splits)

theorem Start_default_deadline_witness:
  "\<not> truthy (pod_name (example_runner None)) \<and>
   KubernetesConfig.active_deadline_seconds (config (example_runner None)) = None \<and>
   (\<exists>body answer.
      BuildPodManifest (example_runner None) = Inr body \<and>
      V1PodSpec.active_deadline_seconds (spec body) = Some 86400 \<and>
      events example_world
        (snd (snd (Start (example_api [] (Inr ())) (example_runner None) example_world))) =
        [Create_namespaced_pod ''kubeflow'' body answer])"
proof -
  obtain res self' w' where
    run: "Start (example_api [] (Inr ())) (example_runner None) example_world = (res, self', w')"
    by (cases "Start (example_api [] (Inr ())) (example_runner None) example_world")
  have a: "\<not> truthy (pod_name (example_runner None))"
    and b: "KubernetesConfig.active_deadline_seconds (config (example_runner None)) = None"
    and c: "serving_binary (example_runner None) =
              TensorFlowServing ''tensorflow/serving'' 8500
                (\<lambda>path. [(''MODEL_NAME'', ''model''), (''MODEL_BASE_PATH'', path)])"
    by (simp_all add: examples truthy_def)
  from Start_default_deadline [OF a b c run] a b run show ?thesis
    by (simp add: example_runner_def)
qed

text \<open>
  Claim C10. A runner whose \<^verbatim>\<open>active_deadline_seconds\<close> is set to 0 gets the manifest
  of the same runner with the field unset: the deadline of a manifest built is 86400
  seconds, and no \<^verbatim>\<open>ValueError\<close> is raised. The \<^verbatim>\<open>ValueError\<close> is raised exactly for a
  supported serving binary and a negative value.
\<close>

theorem BuildPodManifest_zero_deadline:
  "BuildPodManifest (self\<lparr>config := (config self)\<lparr>active_deadline_seconds := Some 0\<rparr>\<rparr>) =
     BuildPodManifest (self\<lparr>config := (config self)\<lparr>active_deadline_seconds := None\<rparr>\<rparr>)
   \<and> (KubernetesConfig.active_deadline_seconds (config self) = Some 0 \<longrightarrow>
        (\<forall>m. BuildPodManifest self \<noteq> Inl (ValueError m)) \<and>
        (\<forall>body. BuildPodManifest self = Inr body \<longrightarrow>
           V1PodSpec.active_deadline_seconds (spec body) = Some 86400))
   \<and> ((\<exists>m. BuildPodManifest self = Inl (ValueError m)) \<longleftrightarrow>
        (\<exists>img port make_env_vars. serving_binary self = TensorFlowServing img port make_env_vars) \<and>
        (\<exists>n. KubernetesConfig.active_deadline_seconds (config self) = Some n \<and> n < 0))"
  by (auto simp: BuildPodManifest_def or_int_def constants Let_def
      split: ServingBinary.splits option.splits if_splits)

theorem BuildPodManifest_zero_deadline_witness:
  "KubernetesConfig.active_deadline_seconds (config (example_runner (Some 0))) = Some 0 \<and>
   BuildPodManifest (example_runner (Some 0)) = BuildPodManifest (example_runner None) \<and>
   (\<exists>body. BuildPodManifest (example_runner (Some 0)) = Inr body \<and>
      V1PodSpec.active_deadline_seconds (spec body) = Some 86400)"
  using BuildPodManifest_zero_deadline [of "example_runner (Some 0)"]
  by (simp add: examples BuildPodManifest_def or_int_def constants)

text \<open>
  Claim C9. On a runner as the constructor returns it, whatever \<^verbatim>\<open>Start\<close> did,
  \<^verbatim>\<open>GetEndpoint\<close> called next raises the \<^verbatim>\<open>AssertionError\<close> "not ready"; it
  returns no string.
\<close>

theorem GetEndpoint_after_Start:
  assumes "KubernetesRunner_init ku mp sb ss = Inr self"
    and "Start api self w = (res, self', w')"
  shows "GetEndpoint self' =
           Inl (AssertionError
             ''self._endpoint is not ready. You should call Start() and WaitUntilRunning() first.'')"
proof -
  from assms(1) have "endpoint self = None"
    by (auto simp: KubernetesRunner_init_def split: if_splits)
  moreover from assms(2) have "endpoint self' = endpoint self"
    by (auto simp: Start_def Let_def split: if_splits sum.splits prod.splits)
  ultimately show ?thesis
    by (simp add: GetEndpoint_def)
qed

theorem GetEndpoint_after_Start_witness:
  "KubernetesRunner_init example_kube_utils ''/models/model/1'' example_binary (example_spec None) =
     Inr (example_runner None) \<and>
   fst (Start (example_api [] (Inr ())) (example_runner None) example_world) = Inr () \<and>
   pod_name (fst (snd (Start (example_api [] (Inr ())) (example_runner None) example_world))) =
     Some ''tfx-infraval-modelserver-x7k2p'' \<and>
   GetEndpoint (fst (snd (Start (example_api [] (Inr ())) (example_runner None) example_world))) =
     Inl (AssertionError
       ''self._endpoint is not ready. You should call Start() and WaitUntilRunning() first.'')"
proof -
  obtain res self' w' where
    run: "Start (example_api [] (Inr ())) (example_runner None) example_world = (res, self', w')"
    by (cases "Start (example_api [] (Inr ())) (example_runner None) example_world")
  have init: "KubernetesRunner_init example_kube_utils ''/models/model/1'' example_binary
                (example_spec None) = Inr (example_runner None)"
    by (simp add: KubernetesRunner_init_def examples constants)
  have "res = Inr ()" and "pod_name self' = Some ''tfx-infraval-modelserver-x7k2p''"
    using run
    by (auto simp: Start_def BuildPodManifest_def or_int_def or_str_def truthy_def examples
        constants Let_def)
  with GetEndpoint_after_Start [OF init run] init run show ?thesis
    by simp
qed

end
